theory Spec2Isabelle
  imports Main
begin

section \<open>HTTP values\<close>

text \<open>
  The two services answer with JSON documents. A handler either returns a response
  (status code and body) or raises \<open>HTTPException\<close>, which FastAPI renders as the
  document \<open>{"detail": ...}\<close> with the exception's status code and headers.
\<close>

datatype json =
    JNull
  | JInt int
  | JStr string
  | JList "json list"
  | JObj "(string \<times> json) list"

datatype http_exception =
  HTTPException (exc_status: nat) (exc_detail: string) (exc_headers: "(string \<times> string) list")

datatype response = Response (status: nat) (body: json)

type_synonym 'a result = "http_exception + 'a"

text \<open>The status code a client sees, of a response or of a raised exception.\<close>

definition status_of :: "response result \<Rightarrow> nat" where
  "status_of r = (case r of Inl exc \<Rightarrow> exc_status exc | Inr resp \<Rightarrow> status resp)"

text \<open>\<open>StatusResponse(message=...)\<close> under the status code the route declares.\<close>

definition StatusResponse :: "nat \<Rightarrow> string \<Rightarrow> response" where
  "StatusResponse code message = Response code (JObj [(''message'', JStr message)])"

text \<open>\<open>PaginatedResponse(count=..., data=...)\<close>; both paginated routes answer 200.\<close>

definition PaginatedResponse :: "int \<Rightarrow> json list \<Rightarrow> response" where
  "PaginatedResponse count data =
     Response 200 (JObj [(''count'', JInt count), (''data'', JList data)])"

text \<open>An exception no handler catches: the framework answers 500.\<close>

definition internal_server_error :: http_exception where
  "internal_server_error = HTTPException 500 ''Internal Server Error'' []"

section \<open>Python values\<close>

subsection \<open>Dictionaries\<close>

text \<open>
  A Python \<open>dict\<close> keeps its keys in insertion order, and \<open>list(d.keys())\<close> shows
  that order, so a dictionary is an association list: assigning to a present key
  replaces the value where it stands, assigning to a new key appends, \<open>del\<close> removes.
\<close>

type_synonym ('k, 'v) dict = "('k \<times> 'v) list"

definition dict_in :: "'k \<Rightarrow> ('k, 'v) dict \<Rightarrow> bool" where
  "dict_in k d = (map_of d k \<noteq> None)"

primrec dict_set :: "'k \<Rightarrow> 'v \<Rightarrow> ('k, 'v) dict \<Rightarrow> ('k, 'v) dict" where
  "dict_set k v [] = [(k, v)]"
| "dict_set k v (p # ps) = (if fst p = k then (k, v) # ps else p # dict_set k v ps)"

definition dict_del :: "'k \<Rightarrow> ('k, 'v) dict \<Rightarrow> ('k, 'v) dict" where
  "dict_del k d = filter (\<lambda>p. fst p \<noteq> k) d"

definition dict_keys :: "('k, 'v) dict \<Rightarrow> 'k list" where
  "dict_keys d = map fst d"

subsection \<open>Slices\<close>

text \<open>
  \<open>xs[start:stop]\<close>: a negative bound counts from the end, every bound is clamped
  to the list, and an empty range gives the empty list.
\<close>

definition py_slice :: "'a list \<Rightarrow> int \<Rightarrow> int \<Rightarrow> 'a list" where
  "py_slice xs start stop =
     (let n = int (length xs);
          a = (if start < 0 then max 0 (start + n) else min start n);
          b = (if stop < 0 then max 0 (stop + n) else min stop n)
      in take (nat (b - a)) (drop (nat a) xs))"

subsection \<open>Decimal formatting\<close>

text \<open>The decimal digit \<open>d\<close>, for \<open>d < 10\<close>.\<close>

definition digit_char :: "nat \<Rightarrow> char" where
  "digit_char d = ''0123456789'' ! d"

function str_nat :: "nat \<Rightarrow> string" where
  "str_nat n = (if n < 10 then [digit_char n] else str_nat (n div 10) @ [digit_char (n mod 10)])"
  by pat_completeness auto
termination
  by (relation "measure (\<lambda>n. n)") auto

declare str_nat.simps [simp del]

text \<open>The format \<open>{x:02d}\<close> of an f-string, for a non-negative \<open>x\<close>.\<close>

definition fmt_02d :: "nat \<Rightarrow> string" where
  "fmt_02d x = replicate (2 - length (str_nat x)) (CHR ''0'') @ str_nat x"

section \<open>The request models and the bearer token\<close>

text \<open>
  The pydantic models. app.py's \<open>PackageCreate\<close> has the fields \<open>package\<close> and
  \<open>pool\<close>; test\_app.py's has these and the field \<open>profile\<close>. \<open>UserCreate\<close> has
  the same fields and constraints in both files; its field \<open>package\<close> is
  \<open>user_package\<close> here.
\<close>

record PackageCreate =
  package :: string
  pool :: string

record test_app_PackageCreate = PackageCreate +
  profile :: string

record UserCreate =
  username :: string
  passwd :: string
  expdate :: string
  user_package :: string

subsection \<open>Validation of a request body\<close>

text \<open>
  A route with a model parameter receives the JSON body of the request; the framework
  builds the model from it and runs the handler only when every field is valid. A field
  declared \<open>Field(..., min_length=a, max_length=b)\<close> is required and must be a JSON string
  of \<open>a\<close> to \<open>b\<close> characters; \<open>expdate\<close> is required and has no bound. Keys the model
  does not declare are ignored. When a key occurs twice, the last occurrence counts, as
  in \<open>json.loads\<close>. A field's description is its name, its least length and its greatest
  length, if it has one; a string's length is the number of its \<open>char\<close>s.
\<close>

type_synonym field_spec = "string \<times> nat \<times> nat option"

definition body_field :: "json \<Rightarrow> string \<Rightarrow> json option" where
  "body_field payload name = (case payload of JObj kvs \<Rightarrow> map_of (rev kvs) name | _ \<Rightarrow> None)"

definition field_ok :: "json \<Rightarrow> field_spec \<Rightarrow> bool" where
  "field_ok payload spec =
     (case spec of (name, min_length, max_length) \<Rightarrow>
        (case body_field payload name of
           Some (JStr v) \<Rightarrow>
             min_length \<le> length v
             \<and> (case max_length of None \<Rightarrow> True | Some m \<Rightarrow> length v \<le> m)
         | _ \<Rightarrow> False))"

text \<open>The value of a string field; it is read only after the field has been found valid.\<close>

definition field_str :: "json \<Rightarrow> string \<Rightarrow> string" where
  "field_str payload name = (case body_field payload name of Some (JStr v) \<Rightarrow> v | _ \<Rightarrow> [])"

text \<open>
  The locations of the fields that fail, in the order the model declares them; a body
  that is no JSON object fails as a whole.
\<close>

definition validation_errors :: "json \<Rightarrow> field_spec list \<Rightarrow> string list list" where
  "validation_errors payload model =
     (case payload of
        JObj kvs \<Rightarrow>
          map (\<lambda>spec. [''body'', fst spec]) (filter (\<lambda>spec. \<not> field_ok payload spec) model)
      | _ \<Rightarrow> [[''body'']])"

text \<open>
  Modelled from the spec: the answer to a body that fails validation is produced by
  FastAPI, library code outside the repository. The specification says that validation
  failures are rejected before any store access and returned as a structured 422-style
  error. The document has one entry for every failing field; of an entry only the
  location is kept here.
\<close>

definition RequestValidationError :: "string list list \<Rightarrow> response" where
  "RequestValidationError locs =
     Response 422
       (JObj [(''detail'', JList (map (\<lambda>loc. JObj [(''loc'', JList (map JStr loc))]) locs))])"

definition app_PackageCreate_fields :: "field_spec list" where
  "app_PackageCreate_fields = [(''package'', 1, Some 64), (''pool'', 1, Some 253)]"

definition test_app_PackageCreate_fields :: "field_spec list" where
  "test_app_PackageCreate_fields =
     [(''package'', 1, Some 64), (''pool'', 1, Some 253), (''profile'', 1, Some 253)]"

definition UserCreate_fields :: "field_spec list" where
  "UserCreate_fields =
     [(''username'', 1, Some 64), (''passwd'', 1, Some 253), (''expdate'', 0, None),
      (''package'', 1, Some 64)]"

definition app_parse_PackageCreate :: "json \<Rightarrow> response + PackageCreate" where
  "app_parse_PackageCreate payload =
     (let errors = validation_errors payload app_PackageCreate_fields
      in if errors \<noteq> [] then Inl (RequestValidationError errors)
         else Inr \<lparr>package = field_str payload ''package'',
                   pool = field_str payload ''pool''\<rparr>)"

definition test_app_parse_PackageCreate :: "json \<Rightarrow> response + test_app_PackageCreate" where
  "test_app_parse_PackageCreate payload =
     (let errors = validation_errors payload test_app_PackageCreate_fields
      in if errors \<noteq> [] then Inl (RequestValidationError errors)
         else Inr \<lparr>package = field_str payload ''package'',
                   pool = field_str payload ''pool'',
                   profile = field_str payload ''profile''\<rparr>)"

definition parse_UserCreate :: "json \<Rightarrow> response + UserCreate" where
  "parse_UserCreate payload =
     (let errors = validation_errors payload UserCreate_fields
      in if errors \<noteq> [] then Inl (RequestValidationError errors)
         else Inr \<lparr>username = field_str payload ''username'',
                   passwd = field_str payload ''passwd'',
                   expdate = field_str payload ''expdate'',
                   user_package = field_str payload ''package''\<rparr>)"

text \<open>
  What a handler reads from the process around it: the configured secret
  (\<open>os.getenv('API_KEY', ...)\<close>), the clock (\<open>datetime.now().isoformat()\<close>),
  Python's per-process string hash, and what \<open>subprocess.run\<close> does with a command
  line and a timeout.
\<close>

datatype run_outcome =
    CompletedProcess (returncode: int) (stdout: string) (stderr: string)
  | TimeoutExpired
  | OtherException string

record env =
  BEARER_TOKEN :: string
  now_isoformat :: string
  str_hash :: "string \<Rightarrow> int"
  subprocess_run :: "string \<Rightarrow> nat \<Rightarrow> run_outcome"

text \<open>
  Modelled from the spec: \<open>HTTPBearer\<close>, the FastAPI class behind
  \<open>security = HTTPBearer()\<close>, is library code outside the repository. It extracts
  the credential of an \<open>Authorization: Bearer ...\<close> header; the specification says
  that absence yields an Unauthorized condition with a challenge hint. The argument is
  the token of a well-formed bearer header, \<open>None\<close> when the request carries none.
\<close>

definition HTTPBearer :: "string option \<Rightarrow> string result" where
  "HTTPBearer authorization =
     (case authorization of
        None \<Rightarrow> Inl (HTTPException 401 ''Not authenticated'' [(''WWW-Authenticate'', ''Bearer'')])
      | Some credentials \<Rightarrow> Inr credentials)"

text \<open>\<open>verify_token\<close> has the same text in app.py and in test\_app.py.\<close>

definition verify_token :: "env \<Rightarrow> string \<Rightarrow> string result" where
  "verify_token e credentials =
     (if credentials \<noteq> BEARER_TOKEN e
      then Inl (HTTPException 401 ''Invalid authentication token''
                  [(''WWW-Authenticate'', ''Bearer'')])
      else Inr credentials)"

text \<open>\<open>Depends(verify_token)\<close>, which itself depends on \<open>security\<close>.\<close>

definition depends_verify_token :: "env \<Rightarrow> string option \<Rightarrow> string result" where
  "depends_verify_token e authorization =
     (case HTTPBearer authorization of
        Inl exc \<Rightarrow> Inl exc
      | Inr credentials \<Rightarrow> verify_token e credentials)"

section \<open>test\_app.py: the in-memory service\<close>

text \<open>
  The module-level dictionaries \<open>mock_users\<close>, \<open>mock_packages\<close>, \<open>mock_accounting\<close>
  and \<open>mock_nas\<close>. Every stored value is itself a dictionary from field names to
  strings. No route writes \<open>mock_accounting\<close>.
\<close>

record mock_store =
  mock_users :: "(string, (string, string) dict) dict"
  mock_packages :: "(string, (string, string) dict) dict"
  mock_accounting :: "(string, json) dict"
  mock_nas :: "(string, (string, string) dict) dict"

type_synonym 's handled = "response result \<times> 's"

text \<open>The module starts with empty dictionaries; \<open>lifespan\<close> adds one package at startup.\<close>

definition test_app_module_state :: mock_store where
  "test_app_module_state =
     \<lparr>mock_users = [], mock_packages = [], mock_accounting = [], mock_nas = []\<rparr>"

definition test_app_lifespan :: "mock_store \<Rightarrow> mock_store" where
  "test_app_lifespan s =
     s\<lparr>mock_packages :=
         dict_set ''basic_package''
           [(''package'', ''basic_package''), (''pool'', ''basic_pool''),
            (''profile'', ''basic_profile'')]
           (mock_packages s)\<rparr>"

definition test_app_root :: response where
  "test_app_root = StatusResponse 200 ''RADIUS Management API is running (Test Mode)''"

definition test_app_create_package ::
  "env \<Rightarrow> test_app_PackageCreate \<Rightarrow> mock_store \<Rightarrow> mock_store handled" where
  "test_app_create_package e pkg s =
     (if dict_in (package pkg) (mock_packages s)
      then (Inl (HTTPException 400 ''Package already exists'' []), s)
      else (Inr (StatusResponse 201 ''Package created successfully''),
            s\<lparr>mock_packages :=
                dict_set (package pkg)
                  [(''package'', package pkg), (''pool'', pool pkg),
                   (''profile'', profile pkg), (''created'', now_isoformat e)]
                  (mock_packages s)\<rparr>))"

definition test_app_get_packages :: "int \<Rightarrow> int \<Rightarrow> mock_store \<Rightarrow> mock_store handled" where
  "test_app_get_packages limit offset s =
     (let packages_list = dict_keys (mock_packages s);
          total_count = int (length packages_list);
          start_idx = offset;
          end_idx = offset + limit;
          paginated_packages =
            map (\<lambda>pkg. JObj [(''groupname'', JStr pkg)]) (py_slice packages_list start_idx end_idx)
      in (Inr (PaginatedResponse total_count paginated_packages), s))"

definition test_app_create_user :: "env \<Rightarrow> UserCreate \<Rightarrow> mock_store \<Rightarrow> mock_store handled" where
  "test_app_create_user e user s =
     (if dict_in (username user) (mock_users s)
      then (Inl (HTTPException 400 ''User already exists'' []), s)
      else if \<not> dict_in (user_package user) (mock_packages s)
      then (Inl (HTTPException 400 ''Package does not exist'' []), s)
      else (Inr (StatusResponse 201 ''User created successfully''),
            s\<lparr>mock_users :=
                dict_set (username user)
                  [(''username'', username user), (''passwd'', passwd user),
                   (''expdate'', expdate user), (''package'', user_package user),
                   (''created'', now_isoformat e)]
                  (mock_users s)\<rparr>))"

text \<open>
  \<open>user_data["passwd"]\<close> raises \<open>KeyError\<close> on an entry without that key; nothing
  catches it.
\<close>

definition test_app_get_user :: "string \<Rightarrow> mock_store \<Rightarrow> mock_store handled" where
  "test_app_get_user name s =
     (case map_of (mock_users s) name of
        None \<Rightarrow> (Inl (HTTPException 404 ''User not found'' []), s)
      | Some user_data \<Rightarrow>
          (case (map_of user_data ''passwd'', map_of user_data ''expdate'') of
             (Some pw, Some ex) \<Rightarrow>
               (Inr (Response 200
                  (JObj [(''logdata'',
                     JList [JObj [(''username'', JStr name), (''value'', JStr pw)],
                            JObj [(''username'', JStr name), (''value'', JStr ex)]])])), s)
           | _ \<Rightarrow> (Inl internal_server_error, s)))"

definition test_app_delete_user :: "string \<Rightarrow> mock_store \<Rightarrow> mock_store handled" where
  "test_app_delete_user name s =
     (if \<not> dict_in name (mock_users s)
      then (Inl (HTTPException 404 ''User not found'' []), s)
      else
        (let s1 = s\<lparr>mock_users := dict_del name (mock_users s)\<rparr>;
             s2 = (if dict_in name (mock_accounting s1)
                   then s1\<lparr>mock_accounting := dict_del name (mock_accounting s1)\<rparr>
                   else s1)
         in (Inr (StatusResponse 200 ''User deleted successfully''), s2)))"

text \<open>One generated accounting record, for \<open>i\<close> in \<open>range(5)\<close>.\<close>

definition mock_record :: "string \<Rightarrow> nat \<Rightarrow> json" where
  "mock_record name i =
     JObj
      [(''radacctid'', JInt (int i)),
       (''username'', JStr name),
       (''acctterminatecause'', JStr (if i mod 2 = 0 then ''User-Request'' else [])),
       (''callingstationid'', JStr (''00:11:22:33:44:'' @ fmt_02d (50 + i))),
       (''nasipaddress'', JStr ''192.168.1.1''),
       (''acctstarttime'', JStr (''2024-08-'' @ fmt_02d (20 + i) @ '' 10:00:00'')),
       (''acctupdatetime'', JStr (''2024-08-'' @ fmt_02d (20 + i) @ '' 11:30:00'')),
       (''acctstoptime'',
          (if i mod 2 = 0 then JStr (''2024-08-'' @ fmt_02d (20 + i) @ '' 12:00:00'') else JNull)),
       (''acctsessiontime'', (if i mod 2 = 0 then JInt 7200 else JNull)),
       (''acctinputoctets'', JInt (1024000 * (int i + 1))),
       (''acctoutputoctets'', JInt (2048000 * (int i + 1))),
       (''framedipaddress'', JStr (''10.0.1.'' @ str_nat (100 + i)))]"

definition test_app_get_user_accounting ::
  "string \<Rightarrow> int \<Rightarrow> int \<Rightarrow> mock_store \<Rightarrow> mock_store handled" where
  "test_app_get_user_accounting name limit offset s =
     (if \<not> dict_in name (mock_users s)
      then (Inl (HTTPException 404 ''User not found'' []), s)
      else
        (let mock_records = map (mock_record name) [0..<5];
             total_count = int (length mock_records);
             start_idx = offset;
             end_idx = offset + limit;
             paginated_records = py_slice mock_records start_idx end_idx
         in (Inr (PaginatedResponse total_count paginated_records), s)))"

definition test_app_get_online_users :: "env \<Rightarrow> mock_store \<Rightarrow> mock_store handled" where
  "test_app_get_online_users e s =
     (Inr (Response 200
        (JList (map (\<lambda>(name, user_data).
           JObj [(''radacctid'', JInt (str_hash e name mod 10000)),
                 (''username'', JStr name),
                 (''callingstationid'', JStr ''00:11:22:33:44:55''),
                 (''nasipaddress'', JStr ''192.168.1.1''),
                 (''acctstarttime'', JStr ''2024-08-30 10:00:00''),
                 (''framedipaddress'', JStr ''10.0.1.100'')])
           (mock_users s)))), s)"

definition test_app_get_online_count :: "mock_store \<Rightarrow> mock_store handled" where
  "test_app_get_online_count s =
     (Inr (Response 200 (JObj [(''total_online'', JInt (int (length (mock_users s))))])), s)"

text \<open>The source's comment here: "Mock: assume all users are online".\<close>

definition test_app_get_user_online_status :: "string \<Rightarrow> mock_store \<Rightarrow> mock_store handled" where
  "test_app_get_user_online_status name s =
     (if \<not> dict_in name (mock_users s)
      then (Inl (HTTPException 404 ''User not found'' []), s)
      else (Inr (Response 200 (JObj [(''status'', JStr ''Online'')])), s))"

text \<open>
  The route declares no \<open>status_code\<close>, so a created NAS is answered with FastAPI's
  default, 200. \<open>nastype\<close> and \<open>description\<close> are the query parameters after their
  defaults have been applied.
\<close>

definition test_app_create_nas ::
  "env \<Rightarrow> string \<Rightarrow> string \<Rightarrow> string \<Rightarrow> string \<Rightarrow> string \<Rightarrow> mock_store \<Rightarrow> mock_store handled" where
  "test_app_create_nas e nasname shortname secret nastype description s =
     (if dict_in nasname (mock_nas s)
      then (Inl (HTTPException 400 ''NAS already exists'' []), s)
      else (Inr (StatusResponse 200 ''NAS created successfully''),
            s\<lparr>mock_nas :=
                dict_set nasname
                  [(''nasname'', nasname), (''shortname'', shortname), (''secret'', secret),
                   (''type'', nastype), (''description'', description),
                   (''created'', now_isoformat e)]
                  (mock_nas s)\<rparr>))"

definition test_app_disconnect_session :: "string \<Rightarrow> string \<Rightarrow> mock_store \<Rightarrow> mock_store handled" where
  "test_app_disconnect_session session nasaddr s =
     (Inr (StatusResponse 200 ''User session disconnected successfully (mock)''), s)"

definition test_app_health_check :: "env \<Rightarrow> mock_store \<Rightarrow> mock_store handled" where
  "test_app_health_check e s =
     (Inr (Response 200
        (JObj [(''status'', JStr ''healthy''),
               (''database'', JStr ''mock (no database in test mode)''),
               (''timestamp'', JStr (now_isoformat e)),
               (''mode'', JStr ''test''),
               (''users_count'', JInt (int (length (mock_users s)))),
               (''packages_count'', JInt (int (length (mock_packages s)))),
               (''nas_count'', JInt (int (length (mock_nas s))))])), s)"

section \<open>app.py: the service over MySQL\<close>

subsection \<open>The database\<close>

text \<open>
  The tables as the statements of app.py see them, with the columns those statements
  write or read; the auto-increment \<open>id\<close> columns are left out. A row of \<open>radcheck\<close>,
  \<open>radgroupcheck\<close> or \<open>radgroupreply\<close> is (user or group name, attribute, op, value); a
  row of \<open>radusergroup\<close> is (username, groupname); a row of \<open>nas\<close> is (nasname,
  shortname, type, secret, description). Rows stand in insertion order. Strings are
  compared exactly (the server's collation is not modelled), and the tables carry no
  uniqueness constraint and no bound on the length of a value. \<open>db_fault\<close> is the text of the \<open>mysql.connector.Error\<close> that
  the pool or the server raises, \<open>None\<close> while the database works.
\<close>

type_synonym attr_row = "string \<times> string \<times> string \<times> string"

type_synonym nas_row = "string \<times> string \<times> string \<times> string \<times> string"

record radacct_row =
  radacctid :: int
  acct_username :: string
  acctterminatecause :: string
  callingstationid :: string
  nasipaddress :: string
  acctstarttime :: "string option"
  acctupdatetime :: "string option"
  acctstoptime :: "string option"
  acctsessiontime :: "int option"
  acctinputoctets :: "int option"
  acctoutputoctets :: "int option"
  framedipaddress :: string

record database =
  db_fault :: "string option"
  radcheck :: "attr_row list"
  radusergroup :: "(string \<times> string) list"
  radgroupcheck :: "attr_row list"
  radgroupreply :: "attr_row list"
  radacct :: "radacct_row list"
  nas :: "nas_row list"

text \<open>The writing statements that app.py sends, each with its parameter tuple.\<close>

datatype statement =
    INSERT_INTO_radgroupcheck attr_row
  | INSERT_INTO_radgroupreply attr_row
  | INSERT_INTO_radcheck attr_row
  | INSERT_INTO_radusergroup "string \<times> string"
  | INSERT_INTO_nas nas_row
  | DELETE_FROM_radcheck string
  | DELETE_FROM_radusergroup string

fun cursor_execute :: "statement \<Rightarrow> database \<Rightarrow> database" where
  "cursor_execute (INSERT_INTO_radgroupcheck r) d = d\<lparr>radgroupcheck := radgroupcheck d @ [r]\<rparr>"
| "cursor_execute (INSERT_INTO_radgroupreply r) d = d\<lparr>radgroupreply := radgroupreply d @ [r]\<rparr>"
| "cursor_execute (INSERT_INTO_radcheck r) d = d\<lparr>radcheck := radcheck d @ [r]\<rparr>"
| "cursor_execute (INSERT_INTO_radusergroup r) d = d\<lparr>radusergroup := radusergroup d @ [r]\<rparr>"
| "cursor_execute (INSERT_INTO_nas r) d = d\<lparr>nas := nas d @ [r]\<rparr>"
| "cursor_execute (DELETE_FROM_radcheck u) d =
     d\<lparr>radcheck := filter (\<lambda>r. fst r \<noteq> u) (radcheck d)\<rparr>"
| "cursor_execute (DELETE_FROM_radusergroup u) d =
     d\<lparr>radusergroup := filter (\<lambda>r. fst r \<noteq> u) (radusergroup d)\<rparr>"

text \<open>
  A \<open>SELECT\<close> is a function of the tables that gives its rows, or the server's error
  text. \<open>LIMIT\<close> and \<open>OFFSET\<close> take non-negative integers only; MySQL rejects a
  negative one as a syntax error.
\<close>

type_synonym 'a select = "database \<Rightarrow> string + 'a"

definition LIMIT_OFFSET :: "int \<Rightarrow> int \<Rightarrow> 'a list \<Rightarrow> string + 'a list" where
  "LIMIT_OFFSET limit offset rows =
     (if limit < 0 \<or> offset < 0 then Inl ''You have an error in your SQL syntax''
      else Inr (take (nat limit) (drop (nat offset) rows)))"

text \<open>\<open>SELECT COUNT(*) as count FROM radgroupcheck WHERE groupname = %s\<close>\<close>

definition count_radgroupcheck :: "string \<Rightarrow> int select" where
  "count_radgroupcheck g d = Inr (int (length (filter (\<lambda>r. fst r = g) (radgroupcheck d))))"

text \<open>
  The distinct values of a column in storage order: each value stands where it occurs
  first.
\<close>

definition distinct_values :: "'a list \<Rightarrow> 'a list" where
  "distinct_values xs = rev (remdups (rev xs))"

text \<open>\<open>SELECT COUNT(DISTINCT groupname) as count FROM radgroupcheck\<close>\<close>

definition count_distinct_groupname :: "int select" where
  "count_distinct_groupname d = Inr (int (length (distinct_values (map fst (radgroupcheck d)))))"

text \<open>
  \<open>SELECT DISTINCT groupname FROM radgroupcheck GROUP BY groupname LIMIT %s OFFSET %s\<close>.
  The statement has no \<open>ORDER BY\<close>; the group names come in storage order.
\<close>

definition select_distinct_groupname :: "int \<Rightarrow> int \<Rightarrow> string list select" where
  "select_distinct_groupname limit offset d =
     LIMIT_OFFSET limit offset (distinct_values (map fst (radgroupcheck d)))"

text \<open>\<open>SELECT COUNT(*) as count FROM radcheck WHERE username = %s\<close>\<close>

definition count_radcheck :: "string \<Rightarrow> int select" where
  "count_radcheck u d = Inr (int (length (filter (\<lambda>r. fst r = u) (radcheck d))))"

text \<open>\<open>SELECT username, value FROM radcheck WHERE username = %s\<close>\<close>

definition select_radcheck :: "string \<Rightarrow> (string \<times> string) list select" where
  "select_radcheck u d =
     Inr (map (\<lambda>(name, attribute, op, val). (name, val)) (filter (\<lambda>r. fst r = u) (radcheck d)))"

text \<open>\<open>SELECT COUNT(*) as count FROM radacct WHERE username = %s\<close>\<close>

definition count_radacct :: "string \<Rightarrow> int select" where
  "count_radacct u d = Inr (int (length (filter (\<lambda>r. acct_username r = u) (radacct d))))"

text \<open>
  \<open>SELECT ... FROM radacct WHERE username = %s ORDER BY radacctid LIMIT %s OFFSET %s\<close>
\<close>

definition select_radacct :: "string \<Rightarrow> int \<Rightarrow> int \<Rightarrow> radacct_row list select" where
  "select_radacct u limit offset d =
     LIMIT_OFFSET limit offset
       (sort_key radacctid (filter (\<lambda>r. acct_username r = u) (radacct d)))"

text \<open>\<open>SELECT ... FROM radacct WHERE acctstoptime IS NULL\<close>\<close>

definition select_online :: "radacct_row list select" where
  "select_online d = Inr (filter (\<lambda>r. acctstoptime r = None) (radacct d))"

text \<open>\<open>SELECT COUNT(*) as count FROM radacct WHERE acctstoptime IS NULL\<close>\<close>

definition count_online :: "int select" where
  "count_online d = Inr (int (length (filter (\<lambda>r. acctstoptime r = None) (radacct d))))"

text \<open>
  \<open>SELECT COUNT(*) as count FROM radacct WHERE username = %s AND acctstoptime IS NULL\<close>
\<close>

definition count_online_user :: "string \<Rightarrow> int select" where
  "count_online_user u d =
     Inr (int (length (filter (\<lambda>r. acct_username r = u \<and> acctstoptime r = None) (radacct d))))"

text \<open>\<open>SELECT COUNT(*) as count FROM nas WHERE nasname = %s\<close>\<close>

definition count_nas :: "string \<Rightarrow> int select" where
  "count_nas n d = Inr (int (length (filter (\<lambda>r. fst r = n) (nas d))))"

text \<open>\<open>SELECT 1\<close>\<close>

definition select_1 :: "int select" where
  "select_1 d = Inr 1"

subsection \<open>DatabaseManager\<close>

text \<open>
  \<open>execute_query\<close> on a \<open>SELECT\<close>: the rows, or HTTP 500 carrying the error text.
\<close>

definition execute_query :: "database \<Rightarrow> 'a select \<Rightarrow> 'a result" where
  "execute_query d query =
     (case db_fault d of
        Some err \<Rightarrow> Inl (HTTPException 500 (''Database error: '' @ err) [])
      | None \<Rightarrow>
          (case query d of
             Inl err \<Rightarrow> Inl (HTTPException 500 (''Database error: '' @ err) [])
           | Inr rows \<Rightarrow> Inr rows))"

text \<open>
  \<open>execute_query(..., fetch=False)\<close> on a writing statement: it runs and commits, or
  rolls back and raises.
\<close>

definition execute_query_nofetch :: "database \<Rightarrow> statement \<Rightarrow> database result" where
  "execute_query_nofetch d stmt =
     (case db_fault d of
        Some err \<Rightarrow> Inl (HTTPException 500 (''Database error: '' @ err) [])
      | None \<Rightarrow> Inr (cursor_execute stmt d))"

text \<open>
  \<open>execute_transaction\<close>: every statement in order, then one commit; on an error the
  rollback leaves the tables as they were.
\<close>

definition execute_transaction :: "database \<Rightarrow> statement list \<Rightarrow> database result" where
  "execute_transaction d queries =
     (case db_fault d of
        Some err \<Rightarrow> Inl (HTTPException 500 (''Transaction failed: '' @ err) [])
      | None \<Rightarrow> Inr (fold cursor_execute queries d))"

subsection \<open>Routes\<close>

definition app_root :: response where
  "app_root = StatusResponse 200 ''RADIUS Management API is running''"

definition app_create_package :: "PackageCreate \<Rightarrow> database \<Rightarrow> database handled" where
  "app_create_package pkg d =
     (case execute_query d (count_radgroupcheck (package pkg)) of
        Inl exc \<Rightarrow> (Inl exc, d)
      | Inr count \<Rightarrow>
          if count > 0 then (Inl (HTTPException 400 ''Package already exists'' []), d)
          else
            (case execute_transaction d
                    [INSERT_INTO_radgroupcheck (package pkg, ''Simultaneous-Use'', '':='', ''1''),
                     INSERT_INTO_radgroupreply (package pkg, ''Framed-Pool'', ''='', pool pkg),
                     INSERT_INTO_radgroupreply
                       (package pkg, ''Acct-Interim-Interval'', ''='', ''120'')] of
               Inl exc \<Rightarrow> (Inl exc, d)
             | Inr d' \<Rightarrow> (Inr (StatusResponse 201 ''Package created successfully''), d')))"

definition app_get_packages :: "int \<Rightarrow> int \<Rightarrow> database \<Rightarrow> database handled" where
  "app_get_packages limit offset d =
     (case execute_query d count_distinct_groupname of
        Inl exc \<Rightarrow> (Inl exc, d)
      | Inr count \<Rightarrow>
          (case execute_query d (select_distinct_groupname limit offset) of
             Inl exc \<Rightarrow> (Inl exc, d)
           | Inr packages \<Rightarrow>
               (Inr (PaginatedResponse count
                       (map (\<lambda>g. JObj [(''groupname'', JStr g)]) packages)), d)))"

definition app_create_user :: "UserCreate \<Rightarrow> database \<Rightarrow> database handled" where
  "app_create_user user d =
     (case execute_query d (count_radcheck (username user)) of
        Inl exc \<Rightarrow> (Inl exc, d)
      | Inr count \<Rightarrow>
          if count > 0 then (Inl (HTTPException 400 ''User already exists'' []), d)
          else
            (case execute_transaction d
                    [INSERT_INTO_radcheck
                       (username user, ''Cleartext-Password'', '':='', passwd user),
                     INSERT_INTO_radcheck (username user, ''Expiration'', '':='', expdate user),
                     INSERT_INTO_radusergroup (username user, user_package user)] of
               Inl exc \<Rightarrow> (Inl exc, d)
             | Inr d' \<Rightarrow> (Inr (StatusResponse 201 ''User created successfully''), d')))"

definition app_get_user :: "string \<Rightarrow> database \<Rightarrow> database handled" where
  "app_get_user name d =
     (case execute_query d (select_radcheck name) of
        Inl exc \<Rightarrow> (Inl exc, d)
      | Inr users \<Rightarrow>
          if users = [] then (Inl (HTTPException 404 ''User not found'' []), d)
          else
            (Inr (Response 200
               (JObj [(''logdata'',
                  JList (map (\<lambda>(u, v). JObj [(''username'', JStr u), (''value'', JStr v)])
                           users))])), d))"

definition app_delete_user :: "string \<Rightarrow> database \<Rightarrow> database handled" where
  "app_delete_user name d =
     (case execute_query d (count_radcheck name) of
        Inl exc \<Rightarrow> (Inl exc, d)
      | Inr count \<Rightarrow>
          if count = 0 then (Inl (HTTPException 404 ''User not found'' []), d)
          else
            (case execute_transaction d
                    [DELETE_FROM_radcheck name, DELETE_FROM_radusergroup name] of
               Inl exc \<Rightarrow> (Inl exc, d)
             | Inr d' \<Rightarrow> (Inr (StatusResponse 200 ''User deleted successfully''), d')))"

text \<open>A nullable column in a row dictionary: \<open>None\<close> is JSON \<open>null\<close>.\<close>

definition nullable :: "('a \<Rightarrow> json) \<Rightarrow> 'a option \<Rightarrow> json" where
  "nullable f v = (case v of None \<Rightarrow> JNull | Some x \<Rightarrow> f x)"

definition accounting_record :: "radacct_row \<Rightarrow> json" where
  "accounting_record r =
     JObj
      [(''radacctid'', JInt (radacctid r)),
       (''username'', JStr (acct_username r)),
       (''acctterminatecause'', JStr (acctterminatecause r)),
       (''callingstationid'', JStr (callingstationid r)),
       (''nasipaddress'', JStr (nasipaddress r)),
       (''acctstarttime'', nullable JStr (acctstarttime r)),
       (''acctupdatetime'', nullable JStr (acctupdatetime r)),
       (''acctstoptime'', nullable JStr (acctstoptime r)),
       (''acctsessiontime'', nullable JInt (acctsessiontime r)),
       (''acctinputoctets'', nullable JInt (acctinputoctets r)),
       (''acctoutputoctets'', nullable JInt (acctoutputoctets r)),
       (''framedipaddress'', JStr (framedipaddress r))]"

definition online_record :: "radacct_row \<Rightarrow> json" where
  "online_record r =
     JObj
      [(''radacctid'', JInt (radacctid r)),
       (''username'', JStr (acct_username r)),
       (''callingstationid'', JStr (callingstationid r)),
       (''nasipaddress'', JStr (nasipaddress r)),
       (''acctstarttime'', nullable JStr (acctstarttime r)),
       (''framedipaddress'', JStr (framedipaddress r))]"

definition app_get_user_accounting ::
  "string \<Rightarrow> int \<Rightarrow> int \<Rightarrow> database \<Rightarrow> database handled" where
  "app_get_user_accounting name limit offset d =
     (case execute_query d (count_radacct name) of
        Inl exc \<Rightarrow> (Inl exc, d)
      | Inr count \<Rightarrow>
          (case execute_query d (select_radacct name limit offset) of
             Inl exc \<Rightarrow> (Inl exc, d)
           | Inr records \<Rightarrow> (Inr (PaginatedResponse count (map accounting_record records)), d)))"

definition app_get_online_users :: "database \<Rightarrow> database handled" where
  "app_get_online_users d =
     (case execute_query d select_online of
        Inl exc \<Rightarrow> (Inl exc, d)
      | Inr online_users \<Rightarrow> (Inr (Response 200 (JList (map online_record online_users))), d))"

definition app_get_online_count :: "database \<Rightarrow> database handled" where
  "app_get_online_count d =
     (case execute_query d count_online of
        Inl exc \<Rightarrow> (Inl exc, d)
      | Inr count \<Rightarrow> (Inr (Response 200 (JObj [(''total_online'', JInt count)])), d))"

definition app_get_user_online_status :: "string \<Rightarrow> database \<Rightarrow> database handled" where
  "app_get_user_online_status name d =
     (case execute_query d (count_radcheck name) of
        Inl exc \<Rightarrow> (Inl exc, d)
      | Inr user_count \<Rightarrow>
          if user_count = 0 then (Inl (HTTPException 404 ''User not found'' []), d)
          else
            (case execute_query d (count_online_user name) of
               Inl exc \<Rightarrow> (Inl exc, d)
             | Inr online_count \<Rightarrow>
                 (let status_msg = (if online_count > 0 then ''Online'' else ''Offline'')
                  in (Inr (Response 200 (JObj [(''status'', JStr status_msg)])), d))))"

text \<open>
  As in test\_app.py the route declares no \<open>status_code\<close>: success is answered 200.
\<close>

definition app_create_nas ::
  "string \<Rightarrow> string \<Rightarrow> string \<Rightarrow> string \<Rightarrow> string \<Rightarrow> database \<Rightarrow> database handled" where
  "app_create_nas nasname shortname secret nastype description d =
     (case execute_query d (count_nas nasname) of
        Inl exc \<Rightarrow> (Inl exc, d)
      | Inr count \<Rightarrow>
          if count > 0 then (Inl (HTTPException 400 ''NAS already exists'' []), d)
          else
            (case execute_query_nofetch d
                    (INSERT_INTO_nas (nasname, shortname, nastype, secret, description)) of
               Inl exc \<Rightarrow> (Inl exc, d)
             | Inr d' \<Rightarrow> (Inr (StatusResponse 200 ''NAS created successfully''), d')))"

text \<open>\<open>str(e)\<close> of an \<open>HTTPException\<close> is its status code, a colon and its detail.\<close>

definition str_exception :: "http_exception \<Rightarrow> string" where
  "str_exception exc = str_nat (exc_status exc) @ '': '' @ exc_detail exc"

text \<open>
  \<open>disconnect_session\<close> runs one shell command through \<open>subprocess.run\<close> with
  \<open>timeout=30\<close>. The second component of the result is the list of the
  \<open>subprocess.run\<close> calls made, each with its command line and its timeout. The
  \<open>HTTPException\<close> raised for a non-zero return code is raised inside the \<open>try\<close> block,
  so the clause \<open>except Exception as e\<close> catches it and raises the final one.
\<close>

definition disconnect_cmd :: "string \<Rightarrow> string \<Rightarrow> string" where
  "disconnect_cmd session nasaddr =
     ''echo Acct-Session-Id='' @ session @ '' | radclient -r 1 '' @ nasaddr
       @ '':3799 disconnect RGL@dmin321#''"

definition app_disconnect_session ::
  "env \<Rightarrow> string \<Rightarrow> string \<Rightarrow> response result \<times> (string \<times> nat) list" where
  "app_disconnect_session e session nasaddr =
     (let cmd = disconnect_cmd session nasaddr
      in (case subprocess_run e cmd 30 of
            CompletedProcess rc out err \<Rightarrow>
              if rc = 0 then Inr (StatusResponse 200 ''User session disconnected successfully'')
              else Inl (HTTPException 500
                     (''Session disconnect failed: ''
                        @ str_exception (HTTPException 500 ''Session disconnect failed'' [])) [])
          | TimeoutExpired \<Rightarrow> Inl (HTTPException 500 ''Session disconnect timeout'' [])
          | OtherException msg \<Rightarrow>
              Inl (HTTPException 500 (''Session disconnect failed: '' @ msg) []),
          [(cmd, 30)]))"

definition app_health_check :: "env \<Rightarrow> database \<Rightarrow> database handled" where
  "app_health_check e d =
     (let db_status =
            (case execute_query d select_1 of
               Inr one \<Rightarrow> ''connected''
             | Inl exc \<Rightarrow> ''error: '' @ str_exception exc)
      in (Inr (Response 200
            (JObj [(''status'', JStr (if db_status = ''connected'' then ''healthy'' else ''unhealthy'')),
                   (''database'', JStr db_status),
                   (''timestamp'', JStr (now_isoformat e))])), d))"

section \<open>Routing\<close>

text \<open>
  One constructor per route of the two applications, with the path and query parameters
  of the route and, for \<open>POST /package\<close> and \<open>POST /user\<close>, the JSON body of the
  request. \<open>type\<close> and \<open>description\<close> of \<open>POST /nas\<close> are optional query parameters
  with the defaults \<open>"other"\<close> and \<open>"RADIUS Client"\<close>.
\<close>

datatype endpoint =
    GET_root
  | GET_health
  | POST_package json
  | GET_package int int
  | POST_user json
  | GET_user string
  | DELETE_user string
  | GET_acct string int int
  | GET_online
  | GET_onlinecount
  | GET_online_user string
  | POST_nas string string string "string option" "string option"
  | POST_session_dis string string

text \<open>The routes declared with \<open>token: str = Depends(verify_token)\<close>.\<close>

fun protected :: "endpoint \<Rightarrow> bool" where
  "protected GET_root = False"
| "protected GET_health = False"
| "protected _ = True"

definition query_default :: "string \<Rightarrow> string option \<Rightarrow> string" where
  "query_default dflt v = (case v of None \<Rightarrow> dflt | Some x \<Rightarrow> x)"

text \<open>
  What the raw-SQL service works on: the database, and the log of the
  \<open>subprocess.run\<close> calls it has made.
\<close>

record app_state =
  db :: database
  run_log :: "(string \<times> nat) list"

definition on_db :: "(database \<Rightarrow> database handled) \<Rightarrow> app_state \<Rightarrow> app_state handled" where
  "on_db h w = (case h (db w) of (r, d') \<Rightarrow> (r, w\<lparr>db := d'\<rparr>))"

fun app_route :: "env \<Rightarrow> endpoint \<Rightarrow> app_state \<Rightarrow> app_state handled" where
  "app_route e GET_root w = (Inr app_root, w)"
| "app_route e GET_health w = on_db (app_health_check e) w"
| "app_route e (POST_package payload) w =
     (case app_parse_PackageCreate payload of
        Inl invalid \<Rightarrow> (Inr invalid, w)
      | Inr pkg \<Rightarrow> on_db (app_create_package pkg) w)"
| "app_route e (GET_package limit offset) w = on_db (app_get_packages limit offset) w"
| "app_route e (POST_user payload) w =
     (case parse_UserCreate payload of
        Inl invalid \<Rightarrow> (Inr invalid, w)
      | Inr user \<Rightarrow> on_db (app_create_user user) w)"
| "app_route e (GET_user name) w = on_db (app_get_user name) w"
| "app_route e (DELETE_user name) w = on_db (app_delete_user name) w"
| "app_route e (GET_acct name limit offset) w =
     on_db (app_get_user_accounting name limit offset) w"
| "app_route e GET_online w = on_db app_get_online_users w"
| "app_route e GET_onlinecount w = on_db app_get_online_count w"
| "app_route e (GET_online_user name) w = on_db (app_get_user_online_status name) w"
| "app_route e (POST_nas nasname shortname secret nastype description) w =
     on_db (app_create_nas nasname shortname secret
              (query_default ''other'' nastype) (query_default ''RADIUS Client'' description)) w"
| "app_route e (POST_session_dis session nasaddr) w =
     (case app_disconnect_session e session nasaddr of
        (r, calls) \<Rightarrow> (r, w\<lparr>run_log := run_log w @ calls\<rparr>))"

fun test_app_route :: "env \<Rightarrow> endpoint \<Rightarrow> mock_store \<Rightarrow> mock_store handled" where
  "test_app_route e GET_root s = (Inr test_app_root, s)"
| "test_app_route e GET_health s = test_app_health_check e s"
| "test_app_route e (POST_package payload) s =
     (case test_app_parse_PackageCreate payload of
        Inl invalid \<Rightarrow> (Inr invalid, s)
      | Inr pkg \<Rightarrow> test_app_create_package e pkg s)"
| "test_app_route e (GET_package limit offset) s = test_app_get_packages limit offset s"
| "test_app_route e (POST_user payload) s =
     (case parse_UserCreate payload of
        Inl invalid \<Rightarrow> (Inr invalid, s)
      | Inr user \<Rightarrow> test_app_create_user e user s)"
| "test_app_route e (GET_user name) s = test_app_get_user name s"
| "test_app_route e (DELETE_user name) s = test_app_delete_user name s"
| "test_app_route e (GET_acct name limit offset) s =
     test_app_get_user_accounting name limit offset s"
| "test_app_route e GET_online s = test_app_get_online_users e s"
| "test_app_route e GET_onlinecount s = test_app_get_online_count s"
| "test_app_route e (GET_online_user name) s = test_app_get_user_online_status name s"
| "test_app_route e (POST_nas nasname shortname secret nastype description) s =
     test_app_create_nas e nasname shortname secret
       (query_default ''other'' nastype) (query_default ''RADIUS Client'' description) s"
| "test_app_route e (POST_session_dis session nasaddr) s =
     test_app_disconnect_session session nasaddr s"

text \<open>
  A request: the bearer token of its \<open>Authorization\<close> header, if it has one, and the
  route it addresses. A protected route resolves \<open>verify_token\<close> first; an exception
  raised there is the response. Then the body is validated, and the handler runs on the
  model built from it.
\<close>

definition app_handle :: "env \<Rightarrow> string option \<times> endpoint \<Rightarrow> app_state \<Rightarrow> app_state handled" where
  "app_handle e req w =
     (case req of (authorization, ep) \<Rightarrow>
        if protected ep then
          (case depends_verify_token e authorization of
             Inl exc \<Rightarrow> (Inl exc, w)
           | Inr token \<Rightarrow> app_route e ep w)
        else app_route e ep w)"

definition test_app_handle ::
  "env \<Rightarrow> string option \<times> endpoint \<Rightarrow> mock_store \<Rightarrow> mock_store handled" where
  "test_app_handle e req s =
     (case req of (authorization, ep) \<Rightarrow>
        if protected ep then
          (case depends_verify_token e authorization of
             Inl exc \<Rightarrow> (Inl exc, s)
           | Inr token \<Rightarrow> test_app_route e ep s)
        else test_app_route e ep s)"

section \<open>Sample data\<close>

text \<open>Concrete requests and stores on which the properties below are evaluated.\<close>

definition example_env :: env where
  "example_env =
     \<lparr>BEARER_TOKEN = ''s3cret'',
      now_isoformat = ''2025-01-01T00:00:00'',
      str_hash = (\<lambda>s. int (length s)),
      subprocess_run = (\<lambda>cmd t. CompletedProcess 1 [] [])\<rparr>"



definition user_body :: "UserCreate \<Rightarrow> json" where
  "user_body user =
     JObj [(''username'', JStr (username user)), (''passwd'', JStr (passwd user)),
           (''expdate'', JStr (expdate user)), (''package'', JStr (user_package user))]"

definition alice :: UserCreate where
  "alice =
     \<lparr>username = ''alice'', passwd = ''pw123'', expdate = ''2025-12-31'',
      user_package = ''basic''\<rparr>"

definition empty_database :: database where
  "empty_database =
     \<lparr>db_fault = None, radcheck = [], radusergroup = [], radgroupcheck = [],
      radgroupreply = [], radacct = [], nas = []\<rparr>"

definition empty_app_state :: app_state where
  "empty_app_state = \<lparr>db = empty_database, run_log = []\<rparr>"

text \<open>
  A database with the packages \<open>basic\<close> (two group-check rows) and \<open>gold\<close>, the user
  \<open>alice\<close> with one open and one closed session, and one NAS.
\<close>

definition example_session :: "int \<Rightarrow> string option \<Rightarrow> radacct_row" where
  "example_session i stop =
     \<lparr>radacctid = i, acct_username = ''alice'', acctterminatecause = [],
      callingstationid = ''00:11:22:33:44:55'', nasipaddress = ''192.168.1.1'',
      acctstarttime = Some ''2025-01-01 10:00:00'', acctupdatetime = None,
      acctstoptime = stop, acctsessiontime = None, acctinputoctets = None,
      acctoutputoctets = None, framedipaddress = ''10.0.1.100''\<rparr>"

definition example_database :: database where
  "example_database =
     \<lparr>db_fault = None,
      radcheck =
        [(''alice'', ''Cleartext-Password'', '':='', ''pw123''),
         (''alice'', ''Expiration'', '':='', ''2025-12-31'')],
      radusergroup = [(''alice'', ''basic'')],
      radgroupcheck =
        [(''basic'', ''Simultaneous-Use'', '':='', ''1''),
         (''gold'', ''Simultaneous-Use'', '':='', ''1''),
         (''basic'', ''Max-Daily-Session'', '':='', ''3600'')],
      radgroupreply =
        [(''basic'', ''Framed-Pool'', ''='', ''poolA''),
         (''basic'', ''Acct-Interim-Interval'', ''='', ''120'')],
      radacct =
        [example_session 1 (Some ''2025-01-01 11:00:00''), example_session 2 None],
      nas = [(''10.0.0.1'', ''core'', ''other'', ''shh'', ''RADIUS Client'')]\<rparr>"

text \<open>
  An in-memory store with three packages, the users \<open>alice\<close> and \<open>bob\<close>, an
  accounting entry for each of them, and one NAS.
\<close>

definition example_store :: mock_store where
  "example_store =
     \<lparr>mock_users =
        [(''alice'',
          [(''username'', ''alice''), (''passwd'', ''pw123''), (''expdate'', ''2025-12-31''),
           (''package'', ''basic''), (''created'', ''2025-01-01T00:00:00'')]),
         (''bob'',
          [(''username'', ''bob''), (''passwd'', ''hunter2''), (''expdate'', ''2026-06-30''),
           (''package'', ''gold''), (''created'', ''2025-01-02T00:00:00'')])],
      mock_packages =
        [(''basic_package'',
          [(''package'', ''basic_package''), (''pool'', ''basic_pool''),
           (''profile'', ''basic_profile'')]),
         (''basic'',
          [(''package'', ''basic''), (''pool'', ''poolA''), (''profile'', ''std''),
           (''created'', ''2025-01-01T00:00:00'')]),
         (''gold'',
          [(''package'', ''gold''), (''pool'', ''poolB''), (''profile'', ''std''),
           (''created'', ''2025-01-01T00:00:00'')])],
      mock_accounting = [(''alice'', JList []), (''bob'', JList [])],
      mock_nas =
        [(''10.0.0.1'',
          [(''nasname'', ''10.0.0.1''), (''shortname'', ''core''), (''secret'', ''shh''),
           (''type'', ''other''), (''description'', ''RADIUS Client''),
           (''created'', ''2025-01-01T00:00:00'')])]\<rparr>"





definition carol :: UserCreate where
  "carol =
     \<lparr>username = ''carol'', passwd = ''pw'', expdate = ''2026-01-01'',
      user_package = ''basic_package''\<rparr>"

text \<open>The in-memory service after startup and one \<open>POST /user\<close> for \<open>carol\<close>.\<close>

definition store_with_carol :: mock_store where
  "store_with_carol =
     snd (test_app_create_user example_env carol (test_app_lifespan test_app_module_state))"

text \<open>Two requests that name a package which none of the sample stores holds.\<close>

definition dave :: UserCreate where
  "dave =
     \<lparr>username = ''dave'', passwd = ''pw'', expdate = ''2026-01-01'', user_package = ''nope''\<rparr>"

definition alice_nope :: UserCreate where
  "alice_nope =
     \<lparr>username = ''alice'', passwd = ''other'', expdate = ''2027-01-01'',
      user_package = ''nope''\<rparr>"

definition example_app_state :: app_state where
  "example_app_state = \<lparr>db = example_database, run_log = []\<rparr>"

section \<open>Comparing the two services\<close>










section \<open>Properties\<close>

subsection \<open>Dictionaries, slices and row filters\<close>

lemma dict_in_iff: "dict_in k d \<longleftrightarrow> k \<in> fst ` set d"
  by (simp add: dict_in_def map_of_eq_None_iff)



lemma dict_in_dict_del: "dict_in k' (dict_del k d) \<longleftrightarrow> k' \<noteq> k \<and> dict_in k' d"
  by (auto simp: dict_in_iff dict_del_def)

lemma filter_other_dict_set:
  "filter (\<lambda>p. fst p \<noteq> k) (dict_set k v d) = filter (\<lambda>p. fst p \<noteq> k) d"
  by (induction d) auto

lemma filter_other_dict_del:
  "filter (\<lambda>p. fst p \<noteq> k) (dict_del k d) = filter (\<lambda>p. fst p \<noteq> k) d"
  by (simp add: dict_del_def)


lemma py_slice_nonneg:
  "0 \<le> start \<Longrightarrow> 0 \<le> lim \<Longrightarrow>
   py_slice xs start (start + lim) = take (nat lim) (drop (nat start) xs)"
  by (auto simp: py_slice_def Let_def min_def max_def)

lemma length_page:
  "0 \<le> lim \<Longrightarrow> 0 \<le> off \<Longrightarrow>
   int (length (take (nat lim) (drop (nat off) xs))) = min lim (max 0 (int (length xs) - off))"
  by (auto simp: min_def max_def)

subsection \<open>Listing packages\<close>

lemma test_app_get_packages_page:
  assumes "0 \<le> limit" and "0 \<le> offset"
  shows "test_app_get_packages limit offset s
     = (Inr (PaginatedResponse (int (length (mock_packages s)))
          (map (\<lambda>pkg. JObj [(''groupname'', JStr pkg)])
             (take (nat limit) (drop (nat offset) (map fst (mock_packages s)))))), s)"
  using assms by (simp add: test_app_get_packages_def Let_def dict_keys_def py_slice_nonneg)

lemma length_distinct_values: "length (distinct_values xs) = card (set xs)"
  by (simp add: distinct_values_def length_remdups_card_conv)

lemma app_get_packages_page:
  assumes "0 \<le> limit" and "0 \<le> offset" and "db_fault d = None"
  shows "app_get_packages limit offset d
     = (Inr (PaginatedResponse (int (card (fst ` set (radgroupcheck d))))
          (map (\<lambda>g. JObj [(''groupname'', JStr g)])
             (take (nat limit)
                (drop (nat offset) (distinct_values (map fst (radgroupcheck d))))))), d)"
proof -
  have n: "length (distinct_values (map fst (radgroupcheck d)))
      = card (fst ` set (radgroupcheck d))"
    by (simp add: length_distinct_values)
  show ?thesis
    using assms
    by (simp add: app_get_packages_def execute_query_def count_distinct_groupname_def
        select_distinct_groupname_def LIMIT_OFFSET_def n)
qed

text \<open>
  Claim C3. For a store holding \<open>N\<close> packages and non-negative \<open>limit\<close> and \<open>offset\<close>,
  \<open>GET /package/{limit}/{offset}\<close> answers with \<open>count = N\<close> and a data list of length
  \<open>min(limit, max(0, N - offset))\<close>. In the in-memory service \<open>N\<close> is the number of
  entries of \<open>mock_packages\<close>; in the service over MySQL it is the number of distinct
  group names in \<open>radgroupcheck\<close>, and the database has to be working.
\<close>

theorem get_packages_pagination:
  assumes "0 \<le> limit" and "0 \<le> offset"
  shows "(\<exists>data.
            test_app_get_packages limit offset s
              = (Inr (PaginatedResponse (int (length (mock_packages s))) data), s)
          \<and> int (length data) = min limit (max 0 (int (length (mock_packages s)) - offset)))
       \<and> (db_fault d = None \<longrightarrow>
           (\<exists>data.
              app_get_packages limit offset d
                = (Inr (PaginatedResponse (int (card (fst ` set (radgroupcheck d)))) data), d)
            \<and> int (length data)
                = min limit (max 0 (int (card (fst ` set (radgroupcheck d))) - offset))))"
proof (intro conjI impI)
  let ?page = "take (nat limit) (drop (nat offset) (map fst (mock_packages s)))"
  have "int (length ?page) = min limit (max 0 (int (length (mock_packages s)) - offset))"
    using length_page[OF assms, of "map fst (mock_packages s)"] by simp
  then show "\<exists>data.
            test_app_get_packages limit offset s
              = (Inr (PaginatedResponse (int (length (mock_packages s))) data), s)
          \<and> int (length data) = min limit (max 0 (int (length (mock_packages s)) - offset))"
    using test_app_get_packages_page[OF assms, of s]
    by (intro exI[of _ "map (\<lambda>pkg. JObj [(''groupname'', JStr pkg)]) ?page"]) simp
next
  assume up: "db_fault d = None"
  let ?names = "distinct_values (map fst (radgroupcheck d))"
  let ?page = "take (nat limit) (drop (nat offset) ?names)"
  have n: "length ?names = card (fst ` set (radgroupcheck d))"
    by (simp add: length_distinct_values)
  have "int (length ?page) = min limit (max 0 (int (card (fst ` set (radgroupcheck d))) - offset))"
    using length_page[OF assms, of ?names] n by simp
  then show "\<exists>data.
              app_get_packages limit offset d
                = (Inr (PaginatedResponse (int (card (fst ` set (radgroupcheck d)))) data), d)
            \<and> int (length data)
                = min limit (max 0 (int (card (fst ` set (radgroupcheck d))) - offset))"
    using app_get_packages_page[OF assms up]
    by (intro exI[of _ "map (\<lambda>g. JObj [(''groupname'', JStr g)]) ?page"]) simp
qed

text \<open>
  The sample store holds three packages and the sample database two distinct group
  names (in three rows); the page at limit 2, offset 2 has one element and none.
\<close>

theorem get_packages_pagination_witness:
  "(0::int) \<le> 2 \<and> db_fault example_database = None
   \<and> (\<exists>data. test_app_get_packages 2 2 example_store
                 = (Inr (PaginatedResponse 3 data), example_store) \<and> int (length data) = 1)
   \<and> (\<exists>data. app_get_packages 2 2 example_database
                 = (Inr (PaginatedResponse 2 data), example_database) \<and> int (length data) = 0)"
proof -
  have h: "(0::int) \<le> 2" by simp
  have up: "db_fault example_database = None" by (simp add: example_database_def)
  have n: "length (mock_packages example_store) = 3" by (simp add: example_store_def)
  have c: "card (fst ` set (radgroupcheck example_database)) = 2"
    by (simp add: example_database_def card_insert_if)
  show ?thesis
    using get_packages_pagination[OF h h, of example_store example_database] up n c
    by simp
qed

subsection \<open>Deleting a user\<close>

lemma app_delete_user_absent:
  assumes "db_fault d = None" and "\<forall>r\<in>set (radcheck d). fst r \<noteq> name"
  shows "app_delete_user name d = (Inl (HTTPException 404 ''User not found'' []), d)"
proof -
  have "filter (\<lambda>r. fst r = name) (radcheck d) = []"
    using assms(2) by (simp add: filter_empty_conv)
  then show ?thesis
    using assms(1) by (simp add: app_delete_user_def execute_query_def count_radcheck_def)
qed

lemma app_delete_user_present:
  assumes "db_fault d = None" and "\<exists>r\<in>set (radcheck d). fst r = name"
  shows "app_delete_user name d
     = (Inr (StatusResponse 200 ''User deleted successfully''),
        d\<lparr>radcheck := filter (\<lambda>r. fst r \<noteq> name) (radcheck d),
          radusergroup := filter (\<lambda>r. fst r \<noteq> name) (radusergroup d)\<rparr>)"
proof -
  have "filter (\<lambda>r. fst r = name) (radcheck d) \<noteq> []"
    using assms(2) by (simp add: filter_empty_conv)
  then show ?thesis
    using assms(1)
    by (simp add: app_delete_user_def execute_query_def count_radcheck_def
        execute_transaction_def)
qed

lemma app_get_user_absent:
  assumes "db_fault d = None" and "\<forall>r\<in>set (radcheck d). fst r \<noteq> name"
  shows "app_get_user name d = (Inl (HTTPException 404 ''User not found'' []), d)"
proof -
  have "filter (\<lambda>r. fst r = name) (radcheck d) = []"
    using assms(2) by (simp add: filter_empty_conv)
  then show ?thesis
    using assms(1) by (simp add: app_get_user_def execute_query_def select_radcheck_def)
qed

text \<open>
  Claim C5. \<open>DELETE /user/{username}\<close> answers 404 and leaves the store as it was when
  the user is absent. When the user exists it answers 200, afterwards no check-attribute
  row and no group-membership row of that user is left (in the in-memory service: no
  entry of \<open>mock_users\<close>, which holds both), and \<open>GET /user/{username}\<close> on the
  resulting store answers 404. A user exists when \<open>radcheck\<close> has a row with the name
  (in memory: when \<open>mock_users\<close> has the key); the database has to be working.
\<close>

theorem delete_user_not_found_or_removed:
  "(\<not> dict_in name (mock_users s) \<longrightarrow>
      test_app_delete_user name s = (Inl (HTTPException 404 ''User not found'' []), s))
   \<and> (dict_in name (mock_users s) \<longrightarrow>
      (\<exists>s'. test_app_delete_user name s
               = (Inr (StatusResponse 200 ''User deleted successfully''), s')
           \<and> \<not> dict_in name (mock_users s')
           \<and> fst (test_app_get_user name s') = Inl (HTTPException 404 ''User not found'' [])))
   \<and> (db_fault d = None \<longrightarrow>
        ((\<forall>r\<in>set (radcheck d). fst r \<noteq> name) \<longrightarrow>
           app_delete_user name d = (Inl (HTTPException 404 ''User not found'' []), d))
      \<and> ((\<exists>r\<in>set (radcheck d). fst r = name) \<longrightarrow>
           (\<exists>d'. app_delete_user name d
                    = (Inr (StatusResponse 200 ''User deleted successfully''), d')
                \<and> (\<forall>r\<in>set (radcheck d'). fst r \<noteq> name)
                \<and> (\<forall>r\<in>set (radusergroup d'). fst r \<noteq> name)
                \<and> fst (app_get_user name d')
                    = Inl (HTTPException 404 ''User not found'' []))))"
proof (intro conjI impI)
  assume "\<not> dict_in name (mock_users s)"
  then show "test_app_delete_user name s = (Inl (HTTPException 404 ''User not found'' []), s)"
    by (simp add: test_app_delete_user_def)
next
  assume present: "dict_in name (mock_users s)"
  obtain s' where s': "test_app_delete_user name s
      = (Inr (StatusResponse 200 ''User deleted successfully''), s')"
    and users: "mock_users s' = dict_del name (mock_users s)"
    using present by (simp add: test_app_delete_user_def Let_def)
  have gone: "\<not> dict_in name (mock_users s')"
    by (simp add: users dict_in_dict_del)
  then have "fst (test_app_get_user name s') = Inl (HTTPException 404 ''User not found'' [])"
    by (simp add: test_app_get_user_def dict_in_def)
  with s' gone show "\<exists>s'. test_app_delete_user name s
               = (Inr (StatusResponse 200 ''User deleted successfully''), s')
           \<and> \<not> dict_in name (mock_users s')
           \<and> fst (test_app_get_user name s') = Inl (HTTPException 404 ''User not found'' [])"
    by blast
next
  assume "db_fault d = None" and "\<forall>r\<in>set (radcheck d). fst r \<noteq> name"
  then show "app_delete_user name d = (Inl (HTTPException 404 ''User not found'' []), d)"
    by (rule app_delete_user_absent)
next
  assume up: "db_fault d = None" and present: "\<exists>r\<in>set (radcheck d). fst r = name"
  let ?d' = "d\<lparr>radcheck := filter (\<lambda>r. fst r \<noteq> name) (radcheck d),
          radusergroup := filter (\<lambda>r. fst r \<noteq> name) (radusergroup d)\<rparr>"
  have del: "app_delete_user name d
      = (Inr (StatusResponse 200 ''User deleted successfully''), ?d')"
    by (rule app_delete_user_present[OF up present])
  have norows: "\<forall>r\<in>set (radcheck ?d'). fst r \<noteq> name" by simp
  have nomember: "\<forall>r\<in>set (radusergroup ?d'). fst r \<noteq> name" by simp
  have "db_fault ?d' = None" using up by simp
  then have "app_get_user name ?d' = (Inl (HTTPException 404 ''User not found'' []), ?d')"
    using norows by (rule app_get_user_absent)
  then have "fst (app_get_user name ?d') = Inl (HTTPException 404 ''User not found'' [])"
    by simp
  with del norows nomember
  show "\<exists>d'. app_delete_user name d
                    = (Inr (StatusResponse 200 ''User deleted successfully''), d')
                \<and> (\<forall>r\<in>set (radcheck d'). fst r \<noteq> name)
                \<and> (\<forall>r\<in>set (radusergroup d'). fst r \<noteq> name)
                \<and> fst (app_get_user name d')
                    = Inl (HTTPException 404 ''User not found'' [])"
    by blast
qed

text \<open>
  On the sample stores \<open>carol\<close> is absent and \<open>alice\<close> is present, in memory and in the
  database.
\<close>

theorem delete_user_not_found_or_removed_witness:
  "\<not> dict_in ''carol'' (mock_users example_store)
   \<and> test_app_delete_user ''carol'' example_store
       = (Inl (HTTPException 404 ''User not found'' []), example_store)
   \<and> dict_in ''alice'' (mock_users example_store)
   \<and> (\<exists>s'. test_app_delete_user ''alice'' example_store
               = (Inr (StatusResponse 200 ''User deleted successfully''), s')
           \<and> \<not> dict_in ''alice'' (mock_users s')
           \<and> fst (test_app_get_user ''alice'' s') = Inl (HTTPException 404 ''User not found'' []))
   \<and> db_fault example_database = None
   \<and> ''carol'' \<notin> fst ` set (radcheck example_database)
   \<and> app_delete_user ''carol'' example_database
       = (Inl (HTTPException 404 ''User not found'' []), example_database)
   \<and> (\<exists>r\<in>set (radcheck example_database). fst r = ''alice'')
   \<and> (\<exists>d'. app_delete_user ''alice'' example_database
               = (Inr (StatusResponse 200 ''User deleted successfully''), d')
           \<and> (\<forall>r\<in>set (radcheck d'). fst r \<noteq> ''alice'')
           \<and> (\<forall>r\<in>set (radusergroup d'). fst r \<noteq> ''alice'')
           \<and> fst (app_get_user ''alice'' d') = Inl (HTTPException 404 ''User not found'' []))"
proof -
  have h1: "\<not> dict_in ''carol'' (mock_users example_store)"
    by (simp add: dict_in_def example_store_def)
  have h2: "dict_in ''alice'' (mock_users example_store)"
    by (simp add: dict_in_def example_store_def)
  have h3: "db_fault example_database = None"
    by (simp add: example_database_def)
  have h4: "\<forall>r\<in>set (radcheck example_database). fst r \<noteq> ''carol''"
    by (simp add: example_database_def)
  have h5: "\<exists>r\<in>set (radcheck example_database). fst r = ''alice''"
    by (simp add: example_database_def)
  have h6: "''carol'' \<notin> fst ` set (radcheck example_database)"
    by (simp add: example_database_def)
  show ?thesis
    using h1 h2 h3 h4 h5 h6
      delete_user_not_found_or_removed[where name = "''carol''" and s = example_store
        and d = example_database]
      delete_user_not_found_or_removed[where name = "''alice''" and s = example_store
        and d = example_database]
    by blast
qed

subsection \<open>Creating a package twice\<close>



subsection \<open>What a user-targeted write leaves alone\<close>

text \<open>
  Claim C10. In the in-memory service, creating user \<open>u\<close> and deleting user \<open>u\<close> leave
  the entries of every other username in \<open>mock_users\<close> as they were (the same entries
  in the same order), and leave \<open>mock_packages\<close> and \<open>mock_nas\<close> unchanged. Deleting
  leaves every other accounting entry unchanged and, when \<open>u\<close> existed (so that the
  deletion took place), no accounting entry of \<open>u\<close> remains.
\<close>

theorem test_app_user_writes_frame:
  "(case test_app_create_user e user s of (r, s') \<Rightarrow>
       filter (\<lambda>p. fst p \<noteq> username user) (mock_users s')
         = filter (\<lambda>p. fst p \<noteq> username user) (mock_users s)
     \<and> mock_packages s' = mock_packages s \<and> mock_nas s' = mock_nas s
     \<and> mock_accounting s' = mock_accounting s)
   \<and> (case test_app_delete_user name s of (r, s') \<Rightarrow>
       filter (\<lambda>p. fst p \<noteq> name) (mock_users s') = filter (\<lambda>p. fst p \<noteq> name) (mock_users s)
     \<and> mock_packages s' = mock_packages s \<and> mock_nas s' = mock_nas s
     \<and> filter (\<lambda>p. fst p \<noteq> name) (mock_accounting s')
         = filter (\<lambda>p. fst p \<noteq> name) (mock_accounting s)
     \<and> (dict_in name (mock_users s) \<longrightarrow> \<not> dict_in name (mock_accounting s')))"
proof (intro conjI)
  show "case test_app_create_user e user s of (r, s') \<Rightarrow>
       filter (\<lambda>p. fst p \<noteq> username user) (mock_users s')
         = filter (\<lambda>p. fst p \<noteq> username user) (mock_users s)
     \<and> mock_packages s' = mock_packages s \<and> mock_nas s' = mock_nas s
     \<and> mock_accounting s' = mock_accounting s"
    by (simp add: test_app_create_user_def filter_other_dict_set)
next
  show "case test_app_delete_user name s of (r, s') \<Rightarrow>
       filter (\<lambda>p. fst p \<noteq> name) (mock_users s') = filter (\<lambda>p. fst p \<noteq> name) (mock_users s)
     \<and> mock_packages s' = mock_packages s \<and> mock_nas s' = mock_nas s
     \<and> filter (\<lambda>p. fst p \<noteq> name) (mock_accounting s')
         = filter (\<lambda>p. fst p \<noteq> name) (mock_accounting s)
     \<and> (dict_in name (mock_users s) \<longrightarrow> \<not> dict_in name (mock_accounting s'))"
    by (simp add: test_app_delete_user_def Let_def filter_other_dict_del dict_in_dict_del)
qed

text \<open>
  The sample store has the users \<open>alice\<close> and \<open>bob\<close>, each with an accounting entry;
  deleting \<open>alice\<close> leaves \<open>bob\<close> and his accounting entry.
\<close>

theorem test_app_user_writes_frame_witness:
  "dict_in ''alice'' (mock_users example_store)
   \<and> dict_in ''alice'' (mock_accounting example_store)
   \<and> map fst (mock_users (snd (test_app_delete_user ''alice'' example_store))) = [''bob'']
   \<and> \<not> dict_in ''alice'' (mock_accounting (snd (test_app_delete_user ''alice'' example_store)))
   \<and> filter (\<lambda>p. fst p \<noteq> ''alice'')
         (mock_accounting (snd (test_app_delete_user ''alice'' example_store)))
       = [(''bob'', JList [])]"
proof -
  have h: "dict_in ''alice'' (mock_users example_store)"
    by (simp add: dict_in_def example_store_def)
  have a: "dict_in ''alice'' (mock_accounting example_store)"
    by (simp add: dict_in_def example_store_def)
  have u: "map fst (mock_users (snd (test_app_delete_user ''alice'' example_store))) = [''bob'']"
    by (simp add: test_app_delete_user_def Let_def dict_in_def dict_del_def example_store_def)
  have others: "filter (\<lambda>p. fst p \<noteq> ''alice'') (mock_accounting example_store)
      = [(''bob'', JList [])]"
    by (simp add: example_store_def)
  have frame: "filter (\<lambda>p. fst p \<noteq> ''alice'')
         (mock_accounting (snd (test_app_delete_user ''alice'' example_store)))
       = filter (\<lambda>p. fst p \<noteq> ''alice'') (mock_accounting example_store)"
    and gone: "dict_in ''alice'' (mock_users example_store) \<longrightarrow>
      \<not> dict_in ''alice'' (mock_accounting (snd (test_app_delete_user ''alice'' example_store)))"
    using test_app_user_writes_frame[where e = example_env and user = alice
        and s = example_store and name = "''alice''"]
    by (simp_all only: split_beta) blast+
  from h a u gone frame others show ?thesis by simp
qed

subsection \<open>The bearer token\<close>

lemma depends_verify_token_reject:
  assumes "authorization \<noteq> Some (BEARER_TOKEN e)"
  shows "\<exists>detail. depends_verify_token e authorization
           = Inl (HTTPException 401 detail [(''WWW-Authenticate'', ''Bearer'')])"
  using assms
  by (cases authorization) (simp_all add: depends_verify_token_def HTTPBearer_def verify_token_def)

text \<open>
  Claim C7. On every protected route, a request whose bearer token is missing or is
  not the configured secret is answered 401 with the header \<open>WWW-Authenticate: Bearer\<close>.
  The answer is the same whatever the store holds (also when the database is down),
  and the store afterwards is the store before: the rejection neither reads nor writes
  it. This holds in both services.
\<close>

theorem unauthorized_before_store:
  assumes "protected ep" and "authorization \<noteq> Some (BEARER_TOKEN e)"
  shows "\<exists>detail.
           (\<forall>w. app_handle e (authorization, ep) w
                  = (Inl (HTTPException 401 detail [(''WWW-Authenticate'', ''Bearer'')]), w))
         \<and> (\<forall>s. test_app_handle e (authorization, ep) s
                  = (Inl (HTTPException 401 detail [(''WWW-Authenticate'', ''Bearer'')]), s))"
proof -
  obtain detail where "depends_verify_token e authorization
           = Inl (HTTPException 401 detail [(''WWW-Authenticate'', ''Bearer'')])"
    using depends_verify_token_reject[OF assms(2)] by blast
  then have "(\<forall>w. app_handle e (authorization, ep) w
                  = (Inl (HTTPException 401 detail [(''WWW-Authenticate'', ''Bearer'')]), w))
         \<and> (\<forall>s. test_app_handle e (authorization, ep) s
                  = (Inl (HTTPException 401 detail [(''WWW-Authenticate'', ''Bearer'')]), s))"
    using assms(1) by (simp add: app_handle_def test_app_handle_def)
  then show ?thesis by blast
qed

text \<open>
  A wrong token and a missing one, on \<open>DELETE /user/alice\<close>, against stores that hold
  \<open>alice\<close>.
\<close>

theorem unauthorized_before_store_witness:
  "protected (DELETE_user ''alice'')
   \<and> Some ''guess'' \<noteq> Some (BEARER_TOKEN example_env)
   \<and> None \<noteq> Some (BEARER_TOKEN example_env)
   \<and> (\<exists>detail.
         app_handle example_env (Some ''guess'', DELETE_user ''alice'')
             \<lparr>db = example_database, run_log = []\<rparr>
           = (Inl (HTTPException 401 detail [(''WWW-Authenticate'', ''Bearer'')]),
              \<lparr>db = example_database, run_log = []\<rparr>)
       \<and> test_app_handle example_env (Some ''guess'', DELETE_user ''alice'') example_store
           = (Inl (HTTPException 401 detail [(''WWW-Authenticate'', ''Bearer'')]), example_store))
   \<and> (\<exists>detail.
         app_handle example_env (None, DELETE_user ''alice'')
             \<lparr>db = example_database, run_log = []\<rparr>
           = (Inl (HTTPException 401 detail [(''WWW-Authenticate'', ''Bearer'')]),
              \<lparr>db = example_database, run_log = []\<rparr>)
       \<and> test_app_handle example_env (None, DELETE_user ''alice'') example_store
           = (Inl (HTTPException 401 detail [(''WWW-Authenticate'', ''Bearer'')]), example_store))"
proof -
  have p: "protected (DELETE_user ''alice'')" by simp
  have t: "Some ''guess'' \<noteq> Some (BEARER_TOKEN example_env)" by (simp add: example_env_def)
  have n: "None \<noteq> Some (BEARER_TOKEN example_env)" by simp
  show ?thesis
    using p t n unauthorized_before_store[OF p t] unauthorized_before_store[OF p n]
    by blast
qed

subsection \<open>Registering a NAS\<close>

lemma dict_set_new: "\<not> dict_in k d \<Longrightarrow> dict_set k v d = d @ [(k, v)]"
  by (induction d) (auto simp: dict_in_iff)

text \<open>
  Claim C8 says that a successful \<open>POST /nas\<close> is answered 201. Both services answer
  200: the route is declared without \<open>status_code\<close>.
\<close>

theorem create_nas_status_counterexample:
  "status_of (fst (app_handle example_env
       (Some ''s3cret'', POST_nas ''10.0.0.9'' ''edge'' ''shh'' None None) empty_app_state)) = 200
   \<and> status_of (fst (app_handle example_env
       (Some ''s3cret'', POST_nas ''10.0.0.9'' ''edge'' ''shh'' None None) empty_app_state)) \<noteq> 201
   \<and> status_of (fst (test_app_handle example_env
       (Some ''s3cret'', POST_nas ''10.0.0.9'' ''edge'' ''shh'' None None)
       (test_app_lifespan test_app_module_state))) = 200
   \<and> status_of (fst (test_app_handle example_env
       (Some ''s3cret'', POST_nas ''10.0.0.9'' ''edge'' ''shh'' None None)
       (test_app_lifespan test_app_module_state))) \<noteq> 201"
  by (simp add: app_handle_def test_app_handle_def depends_verify_token_def HTTPBearer_def
      verify_token_def example_env_def on_db_def app_create_nas_def execute_query_def
      execute_query_nofetch_def count_nas_def empty_app_state_def empty_database_def
      test_app_create_nas_def test_app_lifespan_def test_app_module_state_def dict_in_def
      StatusResponse_def status_of_def query_default_def)

text \<open>
  Claim C8, amended. \<open>POST /nas\<close> with a name not yet registered appends one NAS row
  (one entry of \<open>mock_nas\<close>) and is answered 200; the row has type \<open>"other"\<close> when the
  query parameter \<open>type\<close> is omitted and description \<open>"RADIUS Client"\<close> when
  \<open>description\<close> is omitted. With a name already registered the answer is 400 "NAS
  already exists" and the store is unchanged. The database has to be working.
\<close>

theorem create_nas_inserts_one_row:
  "(db_fault (db w) = None \<longrightarrow>
      ((\<forall>r\<in>set (nas (db w)). fst r \<noteq> n) \<longrightarrow>
         app_route e (POST_nas n sh sec ty de) w
           = (Inr (StatusResponse 200 ''NAS created successfully''),
              w\<lparr>db := (db w)\<lparr>nas := nas (db w)
                  @ [(n, sh, (case ty of None \<Rightarrow> ''other'' | Some t \<Rightarrow> t), sec,
                      (case de of None \<Rightarrow> ''RADIUS Client'' | Some x \<Rightarrow> x))]\<rparr>\<rparr>))
    \<and> ((\<exists>r\<in>set (nas (db w)). fst r = n) \<longrightarrow>
         app_route e (POST_nas n sh sec ty de) w
           = (Inl (HTTPException 400 ''NAS already exists'' []), w)))
   \<and> (\<not> dict_in n (mock_nas s) \<longrightarrow>
         test_app_route e (POST_nas n sh sec ty de) s
           = (Inr (StatusResponse 200 ''NAS created successfully''),
              s\<lparr>mock_nas := mock_nas s
                  @ [(n, [(''nasname'', n), (''shortname'', sh), (''secret'', sec),
                          (''type'', (case ty of None \<Rightarrow> ''other'' | Some t \<Rightarrow> t)),
                          (''description'',
                             (case de of None \<Rightarrow> ''RADIUS Client'' | Some x \<Rightarrow> x)),
                          (''created'', now_isoformat e)])]\<rparr>))
   \<and> (dict_in n (mock_nas s) \<longrightarrow>
         test_app_route e (POST_nas n sh sec ty de) s
           = (Inl (HTTPException 400 ''NAS already exists'' []), s))"
proof (intro conjI impI)
  assume up: "db_fault (db w) = None" and fresh: "\<forall>r\<in>set (nas (db w)). fst r \<noteq> n"
  have "filter (\<lambda>r. fst r = n) (nas (db w)) = []"
    using fresh by (simp add: filter_empty_conv)
  then show "app_route e (POST_nas n sh sec ty de) w
           = (Inr (StatusResponse 200 ''NAS created successfully''),
              w\<lparr>db := (db w)\<lparr>nas := nas (db w)
                  @ [(n, sh, (case ty of None \<Rightarrow> ''other'' | Some t \<Rightarrow> t), sec,
                      (case de of None \<Rightarrow> ''RADIUS Client'' | Some x \<Rightarrow> x))]\<rparr>\<rparr>)"
    using up
    by (simp add: on_db_def app_create_nas_def execute_query_def execute_query_nofetch_def
        count_nas_def query_default_def)
next
  assume up: "db_fault (db w) = None" and present: "\<exists>r\<in>set (nas (db w)). fst r = n"
  have "filter (\<lambda>r. fst r = n) (nas (db w)) \<noteq> []"
    using present by (simp add: filter_empty_conv)
  then show "app_route e (POST_nas n sh sec ty de) w
           = (Inl (HTTPException 400 ''NAS already exists'' []), w)"
    using up
    by (simp add: on_db_def app_create_nas_def execute_query_def count_nas_def)
next
  assume "\<not> dict_in n (mock_nas s)"
  then show "test_app_route e (POST_nas n sh sec ty de) s
           = (Inr (StatusResponse 200 ''NAS created successfully''),
              s\<lparr>mock_nas := mock_nas s
                  @ [(n, [(''nasname'', n), (''shortname'', sh), (''secret'', sec),
                          (''type'', (case ty of None \<Rightarrow> ''other'' | Some t \<Rightarrow> t)),
                          (''description'',
                             (case de of None \<Rightarrow> ''RADIUS Client'' | Some x \<Rightarrow> x)),
                          (''created'', now_isoformat e)])]\<rparr>)"
    by (simp add: test_app_create_nas_def dict_set_new query_default_def)
next
  assume "dict_in n (mock_nas s)"
  then show "test_app_route e (POST_nas n sh sec ty de) s
           = (Inl (HTTPException 400 ''NAS already exists'' []), s)"
    by (simp add: test_app_create_nas_def)
qed

text \<open>
  Both sample stores hold the NAS \<open>10.0.0.1\<close> and not \<open>10.0.0.9\<close>; the requests omit
  \<open>type\<close> and \<open>description\<close>.
\<close>

theorem create_nas_inserts_one_row_witness:
  "db_fault (db example_app_state) = None
   \<and> ''10.0.0.9'' \<notin> fst ` set (nas (db example_app_state))
   \<and> fst (app_route example_env (POST_nas ''10.0.0.9'' ''edge'' ''k3y'' None None)
            example_app_state)
       = Inr (StatusResponse 200 ''NAS created successfully'')
   \<and> nas (db (snd (app_route example_env (POST_nas ''10.0.0.9'' ''edge'' ''k3y'' None None)
            example_app_state)))
       = [(''10.0.0.1'', ''core'', ''other'', ''shh'', ''RADIUS Client''),
          (''10.0.0.9'', ''edge'', ''other'', ''k3y'', ''RADIUS Client'')]
   \<and> (\<exists>r\<in>set (nas (db example_app_state)). fst r = ''10.0.0.1'')
   \<and> app_route example_env (POST_nas ''10.0.0.1'' ''edge'' ''k3y'' None None) example_app_state
       = (Inl (HTTPException 400 ''NAS already exists'' []), example_app_state)
   \<and> \<not> dict_in ''10.0.0.9'' (mock_nas example_store)
   \<and> fst (test_app_route example_env (POST_nas ''10.0.0.9'' ''edge'' ''k3y'' None None)
            example_store)
       = Inr (StatusResponse 200 ''NAS created successfully'')
   \<and> map fst (mock_nas (snd (test_app_route example_env
            (POST_nas ''10.0.0.9'' ''edge'' ''k3y'' None None) example_store)))
       = [''10.0.0.1'', ''10.0.0.9'']
   \<and> dict_in ''10.0.0.1'' (mock_nas example_store)
   \<and> test_app_route example_env (POST_nas ''10.0.0.1'' ''edge'' ''k3y'' None None) example_store
       = (Inl (HTTPException 400 ''NAS already exists'' []), example_store)"
proof -
  have h1: "db_fault (db example_app_state) = None"
    by (simp add: example_app_state_def example_database_def)
  have rows: "nas (db example_app_state)
      = [(''10.0.0.1'', ''core'', ''other'', ''shh'', ''RADIUS Client'')]"
    by (simp add: example_app_state_def example_database_def)
  have h2: "\<forall>r\<in>set (nas (db example_app_state)). fst r \<noteq> ''10.0.0.9''"
    and h2': "''10.0.0.9'' \<notin> fst ` set (nas (db example_app_state))"
    and h3: "\<exists>r\<in>set (nas (db example_app_state)). fst r = ''10.0.0.1''"
    by (simp_all add: rows)
  have keys: "map fst (mock_nas example_store) = [''10.0.0.1'']"
    by (simp add: example_store_def)
  have h4: "\<not> dict_in ''10.0.0.9'' (mock_nas example_store)"
    and h5: "dict_in ''10.0.0.1'' (mock_nas example_store)"
    by (simp_all add: dict_in_iff keys[symmetric, simplified] example_store_def)
  note new = create_nas_inserts_one_row[where w = example_app_state and s = example_store
      and e = example_env and n = "''10.0.0.9''" and sh = "''edge''" and sec = "''k3y''"
      and ty = None and de = None]
  note old = create_nas_inserts_one_row[where w = example_app_state and s = example_store
      and e = example_env and n = "''10.0.0.1''" and sh = "''edge''" and sec = "''k3y''"
      and ty = None and de = None]
  have a1: "app_route example_env (POST_nas ''10.0.0.9'' ''edge'' ''k3y'' None None)
      example_app_state
      = (Inr (StatusResponse 200 ''NAS created successfully''),
         example_app_state\<lparr>db := (db example_app_state)\<lparr>nas := nas (db example_app_state)
            @ [(''10.0.0.9'', ''edge'', ''other'', ''k3y'', ''RADIUS Client'')]\<rparr>\<rparr>)"
    using new h1 h2 by simp
  have a2: "app_route example_env (POST_nas ''10.0.0.1'' ''edge'' ''k3y'' None None)
      example_app_state = (Inl (HTTPException 400 ''NAS already exists'' []), example_app_state)"
    using old h1 h3 by blast
  have t1: "test_app_route example_env (POST_nas ''10.0.0.9'' ''edge'' ''k3y'' None None)
      example_store
      = (Inr (StatusResponse 200 ''NAS created successfully''),
         example_store\<lparr>mock_nas := mock_nas example_store
            @ [(''10.0.0.9'', [(''nasname'', ''10.0.0.9''), (''shortname'', ''edge''),
                 (''secret'', ''k3y''), (''type'', ''other''),
                 (''description'', ''RADIUS Client''),
                 (''created'', now_isoformat example_env)])]\<rparr>)"
    using new h4 by simp
  have t2: "test_app_route example_env (POST_nas ''10.0.0.1'' ''edge'' ''k3y'' None None)
      example_store = (Inl (HTTPException 400 ''NAS already exists'' []), example_store)"
    using old h5 by blast
  show ?thesis
    unfolding a1 a2 t1 t2 using h1 h2' h3 h4 h5 by (simp add: rows keys)
qed

subsection \<open>Disconnecting a session\<close>

lemma str_nat_500: "str_nat 500 = ''500''"
  by (simp add: str_nat.simps digit_char_def)

lemma app_disconnect_session_result:
  "app_disconnect_session e session nasaddr =
     ((case subprocess_run e (disconnect_cmd session nasaddr) 30 of
         CompletedProcess rc out err \<Rightarrow>
           if rc = 0 then Inr (StatusResponse 200 ''User session disconnected successfully'')
           else Inl (HTTPException 500
                  ''Session disconnect failed: 500: Session disconnect failed'' [])
       | TimeoutExpired \<Rightarrow> Inl (HTTPException 500 ''Session disconnect timeout'' [])
       | OtherException msg \<Rightarrow>
           Inl (HTTPException 500 (''Session disconnect failed: '' @ msg) [])),
      [(disconnect_cmd session nasaddr, 30)])"
  by (simp add: app_disconnect_session_def Let_def str_exception_def str_nat_500
      split: run_outcome.splits)

text \<open>
  Claim C9. An authorised \<open>POST /session-dis\<close> on the service over MySQL calls
  \<open>subprocess.run\<close> exactly once, on the one \<open>radclient\<close> command line (which asks for
  a single try, \<open>-r 1\<close>) and with a timeout of 30 seconds. The answer is 200 or 500; it
  is 200 exactly when the command completes with return code 0. Every non-zero return
  code gives the same 500 response, whatever the code and the command's output, and a
  timeout gives a fixed 500 response.
\<close>

theorem disconnect_session_one_attempt:
  "\<exists>r. app_handle e (Some (BEARER_TOKEN e), POST_session_dis session nasaddr) w
          = (r, w\<lparr>run_log := run_log w @ [(disconnect_cmd session nasaddr, 30)]\<rparr>)
      \<and> (status_of r = 200 \<or> status_of r = 500)
      \<and> (status_of r = 200
           \<longleftrightarrow> (\<exists>out err. subprocess_run e (disconnect_cmd session nasaddr) 30
                              = CompletedProcess 0 out err))
      \<and> ((\<exists>rc out err. rc \<noteq> 0 \<and> subprocess_run e (disconnect_cmd session nasaddr) 30
                              = CompletedProcess rc out err) \<longrightarrow>
           r = Inl (HTTPException 500
                      ''Session disconnect failed: 500: Session disconnect failed'' []))
      \<and> (subprocess_run e (disconnect_cmd session nasaddr) 30 = TimeoutExpired \<longrightarrow>
           r = Inl (HTTPException 500 ''Session disconnect timeout'' []))"
proof (cases "subprocess_run e (disconnect_cmd session nasaddr) 30")
  case (CompletedProcess rc out err)
  then show ?thesis
    by (simp add: app_handle_def depends_verify_token_def HTTPBearer_def verify_token_def
        app_disconnect_session_result status_of_def StatusResponse_def)
next
  case TimeoutExpired
  then show ?thesis
    by (simp add: app_handle_def depends_verify_token_def HTTPBearer_def verify_token_def
        app_disconnect_session_result status_of_def)
next
  case (OtherException msg)
  then show ?thesis
    by (simp add: app_handle_def depends_verify_token_def HTTPBearer_def verify_token_def
        app_disconnect_session_result status_of_def)
qed

text \<open>A command that returns 1, and a command that times out.\<close>

theorem disconnect_session_one_attempt_witness:
  "subprocess_run example_env (disconnect_cmd ''sess-1'' ''10.0.0.1'') 30 = CompletedProcess 1 [] []
   \<and> app_handle example_env (Some ''s3cret'', POST_session_dis ''sess-1'' ''10.0.0.1'')
         empty_app_state
       = (Inl (HTTPException 500 ''Session disconnect failed: 500: Session disconnect failed'' []),
          empty_app_state\<lparr>run_log :=
            [(''echo Acct-Session-Id=sess-1 | radclient -r 1 10.0.0.1:3799 disconnect RGL@dmin321#'',
              30)]\<rparr>)
   \<and> subprocess_run (example_env\<lparr>subprocess_run := \<lambda>cmd t. TimeoutExpired\<rparr>)
         (disconnect_cmd ''sess-1'' ''10.0.0.1'') 30 = TimeoutExpired
   \<and> fst (app_handle (example_env\<lparr>subprocess_run := \<lambda>cmd t. TimeoutExpired\<rparr>)
         (Some ''s3cret'', POST_session_dis ''sess-1'' ''10.0.0.1'') empty_app_state)
       = Inl (HTTPException 500 ''Session disconnect timeout'' [])"
proof -
  let ?late = "example_env\<lparr>subprocess_run := \<lambda>cmd t. TimeoutExpired\<rparr>"
  have tok: "BEARER_TOKEN example_env = ''s3cret''" "BEARER_TOKEN ?late = ''s3cret''"
    by (simp_all add: example_env_def)
  have h1: "subprocess_run example_env (disconnect_cmd ''sess-1'' ''10.0.0.1'') 30
      = CompletedProcess 1 [] []"
    by (simp add: example_env_def)
  have h2: "subprocess_run ?late (disconnect_cmd ''sess-1'' ''10.0.0.1'') 30 = TimeoutExpired"
    by simp
  have log: "run_log empty_app_state = []" by (simp add: empty_app_state_def)
  have cmd: "disconnect_cmd ''sess-1'' ''10.0.0.1''
      = ''echo Acct-Session-Id=sess-1 | radclient -r 1 10.0.0.1:3799 disconnect RGL@dmin321#''"
    by (simp add: disconnect_cmd_def)
  show ?thesis
    using h1 h2
      disconnect_session_one_attempt[where e = example_env and session = "''sess-1''"
        and nasaddr = "''10.0.0.1''" and w = empty_app_state]
      disconnect_session_one_attempt[where e = ?late and session = "''sess-1''"
        and nasaddr = "''10.0.0.1''" and w = empty_app_state]
    unfolding tok log cmd
    by auto
qed

subsection \<open>Online status of a user\<close>

lemma app_get_user_online_status_cases:
  assumes up: "db_fault d = None"
  shows "app_get_user_online_status name d
        = (if \<not> (\<exists>r\<in>set (radcheck d). fst r = name)
           then (Inl (HTTPException 404 ''User not found'' []), d)
           else if \<exists>r\<in>set (radacct d). acct_username r = name \<and> acctstoptime r = None
           then (Inr (Response 200 (JObj [(''status'', JStr ''Online'')])), d)
           else (Inr (Response 200 (JObj [(''status'', JStr ''Offline'')])), d))"
proof -
  have user: "(filter (\<lambda>r. fst r = name) (radcheck d) = [])
      \<longleftrightarrow> \<not> (\<exists>r\<in>set (radcheck d). fst r = name)"
    by (simp add: filter_empty_conv)
  have online: "(filter (\<lambda>r. acct_username r = name \<and> acctstoptime r = None) (radacct d) = [])
      \<longleftrightarrow> \<not> (\<exists>r\<in>set (radacct d). acct_username r = name \<and> acctstoptime r = None)"
    by (simp add: filter_empty_conv)
  show ?thesis
    using up user online
    by (simp add: app_get_user_online_status_def execute_query_def count_radcheck_def
        count_online_user_def Let_def)
qed

text \<open>
  Claim C4 says that an existing user without an open session is reported
  \<open>Offline\<close>. The in-memory service reports every existing user \<open>Online\<close>: after
  startup and one \<open>POST /user\<close> there is no accounting entry at all, and \<open>carol\<close> is
  \<open>Online\<close>.
\<close>

theorem user_online_status_counterexample:
  "dict_in ''carol'' (mock_users store_with_carol)
   \<and> mock_accounting store_with_carol = []
   \<and> fst (test_app_get_user_online_status ''carol'' store_with_carol)
       = Inr (Response 200 (JObj [(''status'', JStr ''Online'')]))"
  by (simp add: store_with_carol_def test_app_create_user_def carol_def test_app_lifespan_def
      test_app_module_state_def dict_in_def test_app_get_user_online_status_def)

text \<open>
  Claim C4, amended. \<open>GET /online/{username}\<close> answers 404 when the user does not
  exist. For an existing user the service over MySQL (database working) answers
  \<open>Online\<close> when at least one \<open>radacct\<close> row of that user has a null stop time and
  \<open>Offline\<close> otherwise, in particular when the user has no session; the in-memory
  service answers \<open>Online\<close> for every existing user.
\<close>

theorem user_online_status:
  "(db_fault d = None \<longrightarrow>
      app_get_user_online_status name d
        = (if \<not> (\<exists>r\<in>set (radcheck d). fst r = name)
           then (Inl (HTTPException 404 ''User not found'' []), d)
           else if \<exists>r\<in>set (radacct d). acct_username r = name \<and> acctstoptime r = None
           then (Inr (Response 200 (JObj [(''status'', JStr ''Online'')])), d)
           else (Inr (Response 200 (JObj [(''status'', JStr ''Offline'')])), d)))
   \<and> test_app_get_user_online_status name s
        = (if \<not> dict_in name (mock_users s)
           then (Inl (HTTPException 404 ''User not found'' []), s)
           else (Inr (Response 200 (JObj [(''status'', JStr ''Online'')])), s))"
  using app_get_user_online_status_cases[of d name]
  by (simp add: test_app_get_user_online_status_def)

text \<open>
  In the sample database \<open>alice\<close> has an open session; without her sessions she is
  \<open>Offline\<close>; \<open>zoe\<close> is unknown to both stores.
\<close>

theorem user_online_status_witness:
  "db_fault example_database = None
   \<and> app_get_user_online_status ''alice'' example_database
       = (Inr (Response 200 (JObj [(''status'', JStr ''Online'')])), example_database)
   \<and> app_get_user_online_status ''alice'' (example_database\<lparr>radacct := []\<rparr>)
       = (Inr (Response 200 (JObj [(''status'', JStr ''Offline'')])),
          example_database\<lparr>radacct := []\<rparr>)
   \<and> app_get_user_online_status ''zoe'' example_database
       = (Inl (HTTPException 404 ''User not found'' []), example_database)
   \<and> test_app_get_user_online_status ''zoe'' example_store
       = (Inl (HTTPException 404 ''User not found'' []), example_store)"
proof -
  have up: "db_fault example_database = None"
    "db_fault (example_database\<lparr>radacct := []\<rparr>) = None"
    by (simp_all add: example_database_def)
  have users: "map fst (radcheck example_database) = [''alice'', ''alice'']"
    "map fst (radcheck (example_database\<lparr>radacct := []\<rparr>)) = [''alice'', ''alice'']"
    by (simp_all add: example_database_def)
  have u1: "\<exists>r\<in>set (radcheck example_database). fst r = ''alice''"
    "\<exists>r\<in>set (radcheck (example_database\<lparr>radacct := []\<rparr>)). fst r = ''alice''"
    "\<not> (\<exists>r\<in>set (radcheck example_database). fst r = ''zoe'')"
    by (simp_all add: example_database_def)
  have s1: "\<exists>r\<in>set (radacct example_database). acct_username r = ''alice'' \<and> acctstoptime r = None"
    by (simp add: example_database_def example_session_def)
  have s2: "\<not> (\<exists>r\<in>set (radacct (example_database\<lparr>radacct := []\<rparr>)).
      acct_username r = ''alice'' \<and> acctstoptime r = None)"
    by simp
  have z: "\<not> dict_in ''zoe'' (mock_users example_store)"
    by (simp add: dict_in_def example_store_def)
  show ?thesis
    using up u1 s1 s2 z
      user_online_status[where d = example_database and name = "''alice''" and s = example_store]
      user_online_status[where d = "example_database\<lparr>radacct := []\<rparr>" and name = "''alice''"
        and s = example_store]
      user_online_status[where d = example_database and name = "''zoe''" and s = example_store]
    by simp
qed

subsection \<open>Creating a user for a package that does not exist\<close>

text \<open>
  test\_app.py's \<open>create_user\<close> refuses a package that \<open>mock_packages\<close> does not hold and
  leaves the store as it was.
\<close>

lemma test_app_create_user_unknown_package:
  assumes "\<not> dict_in (user_package user) (mock_packages s)"
  shows "\<exists>detail. test_app_create_user e user s = (Inl (HTTPException 400 detail []), s)"
  using assms by (simp add: test_app_create_user_def)

lemma parse_user_body:
  assumes "1 \<le> length (username user)" and "length (username user) \<le> 64"
    and "1 \<le> length (passwd user)" and "length (passwd user) \<le> 253"
    and "1 \<le> length (user_package user)" and "length (user_package user) \<le> 64"
  shows "parse_UserCreate (user_body user) = Inr user"
  using assms
  by (simp add: parse_UserCreate_def validation_errors_def UserCreate_fields_def field_ok_def
      field_str_def body_field_def user_body_def)

text \<open>
  Claim C2. A \<open>POST /user\<close> whose package name does not identify an existing package has
  to fail with 400 and leave no check-attribute row and no group-membership row of that
  username. app.py's \<open>create_user\<close> does not look at the packages. \<open>dave\<close> is new to
  the sample database and asks for the package \<open>nope\<close>, which has no group-check row:
  app.py answers 201 and inserts his two check rows and his membership row. test\_app.py
  answers the same request with 400 "Package does not exist" and leaves its store
  unchanged.
\<close>

theorem app_create_user_unknown_package:
  "''nope'' \<notin> fst ` set (radgroupcheck example_database)
   \<and> ''dave'' \<notin> fst ` set (radcheck example_database)
   \<and> parse_UserCreate (user_body dave) = Inr dave
   \<and> app_handle example_env (Some ''s3cret'', POST_user (user_body dave)) example_app_state
       = (Inr (StatusResponse 201 ''User created successfully''),
          example_app_state
            \<lparr>db := example_database
               \<lparr>radcheck := radcheck example_database
                  @ [(''dave'', ''Cleartext-Password'', '':='', ''pw''),
                     (''dave'', ''Expiration'', '':='', ''2026-01-01'')],
                radusergroup := radusergroup example_database @ [(''dave'', ''nope'')]\<rparr>\<rparr>)
   \<and> \<not> dict_in ''nope'' (mock_packages example_store)
   \<and> test_app_handle example_env (Some ''s3cret'', POST_user (user_body dave)) example_store
       = (Inl (HTTPException 400 ''Package does not exist'' []), example_store)"
proof -
  have tok: "depends_verify_token example_env (Some ''s3cret'') = Inr ''s3cret''"
    by (simp add: depends_verify_token_def HTTPBearer_def verify_token_def example_env_def)
  have parsed: "parse_UserCreate (user_body dave) = Inr dave"
    by (rule parse_user_body) (simp_all add: dave_def)
  have a: "app_create_user dave example_database
      = (Inr (StatusResponse 201 ''User created successfully''),
         example_database
           \<lparr>radcheck := radcheck example_database
              @ [(''dave'', ''Cleartext-Password'', '':='', ''pw''),
                 (''dave'', ''Expiration'', '':='', ''2026-01-01'')],
            radusergroup := radusergroup example_database @ [(''dave'', ''nope'')]\<rparr>)"
    by (simp add: example_database_def dave_def app_create_user_def execute_query_def
        execute_transaction_def count_radcheck_def)
  have t: "test_app_create_user example_env dave example_store
      = (Inl (HTTPException 400 ''Package does not exist'' []), example_store)"
    by (simp add: test_app_create_user_def dave_def example_store_def dict_in_def)
  have rows: "''nope'' \<notin> fst ` set (radgroupcheck example_database)"
    "''dave'' \<notin> fst ` set (radcheck example_database)"
    by (simp_all add: example_database_def)
  have pk: "\<not> dict_in ''nope'' (mock_packages example_store)"
    by (simp add: dict_in_def example_store_def)
  show ?thesis
    using rows pk
    by (simp add: parsed app_handle_def test_app_handle_def tok on_db_def a t
        example_app_state_def)
qed


subsection \<open>The two services compared\<close>




















text \<open>One request keeps corresponding stores corresponding, with the same outcome.\<close>











end
